theory Spec2Isabelle
  imports Main "HOL-Library.Word" "HOL-Library.List_Lexorder" "HOL-Library.Char_ord"
begin

section \<open>Identifiers, errors and event types\<close>

text \<open>
  The portal core of the bridge (package \<open>bridgev2\<close>) is embedded function by function.
  Every call that leaves the package (the Matrix API, the network client, the database,
  the logger) is a field of the record \<open>env\<close>: its answer may depend on every call made
  before it, so each field takes the history of calls as its first argument, and each
  call is appended to the \<open>trace\<close> of the state. One handler runs at a time (the pump of a
  portal is a single worker), so the mutexes of the source are not part of the state.
\<close>

type_synonym id_UserID = string
type_synonym id_RoomID = string
type_synonym id_EventID = string
type_synonym id_ContentURIString = string
type_synonym networkid_PortalID = string
type_synonym networkid_MessageID = string
type_synonym networkid_PartID = string
type_synonym networkid_UserID = string
type_synonym networkid_UserLoginID = string
type_synonym networkid_EmojiID = string
type_synonym networkid_AvatarID = string
type_synonym networkid_BridgeID = string
type_synonym Time = int
type_synonym Hash = "8 word list"

text \<open>Go errors: the two sentinels the portal tests for, any other error, and
  \<open>fmt.Errorf("...: %w", err)\<close>.\<close>

datatype error = MForbidden | ErrNotLoggedIn | Err string | Errorf string error

text \<open>\<open>errors.Is(err, target)\<close> walks the chain of wrapped errors; a nil error is no error.\<close>

fun errors_Is_chain :: "error \<Rightarrow> error \<Rightarrow> bool" where
  "errors_Is_chain (Errorf m e) target = (Errorf m e = target \<or> errors_Is_chain e target)"
| "errors_Is_chain e target = (e = target)"

definition errors_Is :: "error option \<Rightarrow> error \<Rightarrow> bool" where
  "errors_Is err target = (case err of None \<Rightarrow> False | Some e \<Rightarrow> errors_Is_chain e target)"

text \<open>\<open>event.Type\<close>: the types the portal names, and any other type by its string.\<close>

datatype EventType =
    StateRoomName | StateTopic | StateRoomAvatar | StateEncryption
  | StateBridge | StateHalfShotBridge | StateMember | StateSpaceParent
  | stateElementFunctionalMembers
  | EventMessage | EventSticker | EventReaction | EventRedaction
  | EphemeralEventReceipt | EphemeralEventTyping
  | OtherEventType string

text \<open>A \<open>MatrixAPI\<close> handle (an intent) acts as one Matrix user and is identified by it;
  comparing two handles compares the users.\<close>

datatype MatrixAPI = MatrixAPI (GetMXID: id_UserID)

text \<open>Values of Go's \<open>any\<close> stored in raw content and metadata maps. A \<open>string\<close> and an
  \<open>id.UserID\<close> are different dynamic types: the assertion \<open>.(string)\<close> fails on the latter.\<close>

datatype anyval =
    AString string
  | AUserID id_UserID
  | AUserIDs "id_UserID list"
  | ARoomType string
  | AMap "(string \<times> anyval) list"

type_synonym anymap = "(string \<times> anyval) list"

definition map_set :: "string \<Rightarrow> anyval \<Rightarrow> anymap \<Rightarrow> anymap" where
  "map_set k v m = (k, v) # filter (\<lambda>kv. fst kv \<noteq> k) m"

section \<open>Event contents\<close>

text \<open>Package \<open>event\<close> is not among the sources. A relation is kept as what its accessors
  \<open>GetReplaceID\<close>, \<open>GetThreadParent\<close>, \<open>GetReplyTo\<close> and \<open>GetNonFallbackReplyTo\<close> return (the
  empty string when there is none), and the setters the portal calls write these.\<close>

record RelatesTo =
  GetReplaceID :: id_EventID
  GetThreadParent :: id_EventID
  GetReplyTo :: id_EventID
  GetNonFallbackReplyTo :: id_EventID

definition noRelation :: RelatesTo where
  "noRelation = \<lparr>GetReplaceID = [], GetThreadParent = [], GetReplyTo = [], GetNonFallbackReplyTo = []\<rparr>"

definition SetReplyTo :: "id_EventID \<Rightarrow> RelatesTo \<Rightarrow> RelatesTo" where
  "SetReplyTo mxid rel = rel\<lparr>GetReplyTo := mxid, GetNonFallbackReplyTo := mxid\<rparr>"

definition SetThread :: "id_EventID \<Rightarrow> id_EventID \<Rightarrow> RelatesTo \<Rightarrow> RelatesTo" where
  "SetThread mxid fallback rel =
     (let rel1 = rel\<lparr>GetThreadParent := mxid, GetReplaceID := []\<rparr>
      in if fallback \<noteq> [] \<and> GetReplyTo rel1 = []
         then rel1\<lparr>GetReplyTo := fallback, GetNonFallbackReplyTo := []\<rparr>
         else rel1)"

datatype MessageEventContent = MessageEventContent
  (Body: string)
  (RelatesTo: RelatesTo)
  (NewContent: "MessageEventContent option")
  (Mentions: "id_UserID list option")

datatype Membership = MembershipJoin | MembershipLeave | MembershipInvite | MembershipBan | MembershipKnock

record MemberEventContent =
  Membership :: Membership
  mem_AvatarURL :: id_ContentURIString
  mem_Displayname :: string
  mem_Reason :: string

record BridgeInfoSection =
  bis_ID :: string
  bis_DisplayName :: string
  bis_AvatarURL :: id_ContentURIString
  bis_ExternalURL :: string

record BridgeEventContent =
  BridgeBot :: id_UserID
  Creator :: id_UserID
  Protocol :: BridgeInfoSection
  bridge_Network :: "BridgeInfoSection option"
  Channel :: BridgeInfoSection

text \<open>\<open>Content.Parsed\<close> is an \<open>any\<close>; the type switches of the source become a case on this
  datatype. A receipt content maps event ids to receipt types to users.\<close>

datatype Parsed =
    NoParsed
  | RoomNameEventContent string
  | TopicEventContent string
  | RoomAvatarEventContent id_ContentURIString
  | BridgeContent BridgeEventContent
  | MemberContent MemberEventContent
  | SpaceParentEventContent "string list" bool
  | MessageContent MessageEventContent
  | RedactionEventContent id_EventID
  | ReactionEventContent id_EventID string
  | ReceiptEventContent "(id_EventID \<times> (string \<times> (id_UserID \<times> Time) list) list) list"
  | TypingEventContent "id_UserID list"

record Content =
  Parsed :: Parsed
  Raw :: "anymap option"

record Event =
  evt_ID :: id_EventID
  evt_Type :: EventType
  evt_Sender :: id_UserID
  evt_Redacts :: id_EventID
  evt_Content :: Content
  evt_SourceEphemeral :: bool

section \<open>Portal, users, rows\<close>

text \<open>A network client is a handle; a login whose \<open>Client\<close> is nil has none. A login names its
  user by \<open>UserMXID\<close>.\<close>

datatype NetworkAPI = NetworkAPI nat

record UserLogin =
  login_ID :: networkid_UserLoginID
  UserMXID :: id_UserID
  Client :: "NetworkAPI option"

text \<open>The row of the portal (\<open>database.Portal\<close>) and the fields the bridge keeps beside it. The
  pointer \<open>Parent\<close> is the id of the parent portal, read through \<open>portalsByID\<close> of the state;
  nothing in the type keeps a chain of parents from running in a circle.\<close>

record Portal =
  BridgeID :: networkid_BridgeID
  ID :: networkid_PortalID
  MXID :: id_RoomID
  ParentID :: networkid_PortalID
  Name :: string
  Topic :: string
  AvatarID :: networkid_AvatarID
  AvatarHash :: Hash
  AvatarMXC :: id_ContentURIString
  NameSet :: bool
  TopicSet :: bool
  AvatarSet :: bool
  Parent :: "networkid_PortalID option"
  Relay :: "UserLogin option"
  currentlyTyping :: "id_UserID list"

record Ghost =
  ghost_ID :: networkid_UserID
  Intent :: MatrixAPI

record Avatar =
  avatar_ID :: networkid_AvatarID
  Remove :: bool

text \<open>\<open>User.logins\<close> is a Go map: looked up by key, and ranged over in an order the language
  leaves open, here the order of the list.\<close>

record User =
  user_MXID :: id_UserID
  logins :: "(networkid_UserLoginID \<times> UserLogin) list"

record OrigSender =
  os_User :: User
  os_MemberEventContent :: "MemberEventContent option"

record Message =
  RowID :: int
  msg_ID :: networkid_MessageID
  msg_PartID :: networkid_PartID
  msg_MXID :: id_EventID
  msg_RoomID :: networkid_PortalID
  msg_SenderID :: networkid_UserID
  msg_Timestamp :: Time
  RelatesToRowID :: int
  Metadata :: anymap

record Reaction =
  reaction_MessageID :: networkid_MessageID
  reaction_PartID :: networkid_PartID
  reaction_SenderID :: networkid_UserID
  reaction_EmojiID :: networkid_EmojiID
  reaction_MXID :: id_EventID

record 'c MatrixEventBase =
  base_Event :: Event
  base_Content :: 'c
  base_Portal :: Portal
  base_OrigSender :: "OrigSender option"

section \<open>Remote events\<close>

datatype RemoteEventType =
    RemoteEventUnknown | RemoteEventMessage | RemoteEventEdit | RemoteEventReaction
  | RemoteEventReactionRemove | RemoteEventMessageRemove

record EventSender =
  IsFromMe :: bool
  SenderLogin :: networkid_UserLoginID
  Sender :: networkid_UserID

text \<open>A \<open>RemoteEvent\<close> is an interface value: what its getters return, and which of the
  interfaces \<open>RemoteMessage\<close>, \<open>RemoteEdit\<close>, ... its dynamic type implements (a type
  assertion to one it does not implement panics).\<close>

record RemoteEvent =
  GetType :: RemoteEventType
  GetID :: networkid_MessageID
  GetSender :: EventSender
  GetTargetMessage :: networkid_MessageID
  ShouldCreatePortal :: bool
  implements :: "RemoteEventType list"

record MessageOptionalPartID =
  mop_MessageID :: networkid_MessageID
  mop_PartID :: "networkid_PartID option"

record ConvertedMessagePart =
  part_ID :: networkid_PartID
  part_Type :: EventType
  part_Content :: MessageEventContent
  part_Extra :: "anymap option"
  part_DBMetadata :: anymap

record ConvertedMessage =
  ReplyTo :: "MessageOptionalPartID option"
  ThreadRoot :: "MessageOptionalPartID option"
  Parts :: "ConvertedMessagePart list"
  Timestamp :: Time

record ConvertedEditPart =
  edit_Part :: Message
  edit_Type :: EventType
  edit_Content :: MessageEventContent
  edit_Extra :: "anymap option"
  edit_TopLevelExtra :: anymap

record ConvertedEdit =
  ModifiedParts :: "ConvertedEditPart list"
  DeletedParts :: "Message list"
  edit_Timestamp :: Time

record PortalInfo =
  info_Name :: "string option"
  info_Topic :: "string option"
  info_Avatar :: "Avatar option"
  Members :: "networkid_UserID list"
  IsDirectChat :: "bool option"
  IsSpace :: "bool option"

record InitialStateEvent =
  ise_StateKey :: string
  ise_Type :: EventType
  ise_Content :: Content

record ReqCreateRoom =
  Visibility :: string
  req_Name :: string
  req_Topic :: string
  CreationContent :: anymap
  InitialState :: "InitialStateEvent list"
  Preset :: string
  IsDirect :: bool
  PowerLevelOverride :: "(id_UserID \<times> int) list"
  BeeperLocalRoomID :: id_RoomID
  BeeperInitialMembers :: "id_UserID list"
  BeeperAutoJoinInvites :: bool
  Invite :: "id_UserID list"

section \<open>Calls that leave the package, and the state\<close>

datatype LogLevel = DebugLevel | InfoLevel | WarnLevel | ErrorLevel

text \<open>One constructor for each function of another package that takes a context: the
  Matrix API, the network client and the remote event's converters, the avatar's
  re-upload, ghosts and users of the bridge, the database, and the logger.\<close>

datatype call =
    C_Log LogLevel string
  | C_SendState MatrixAPI id_RoomID EventType string Content Time
  | C_SendMessage MatrixAPI id_RoomID EventType Content Time
  | C_CreateRoom MatrixAPI ReqCreateRoom
  | C_GetMembers id_RoomID
  | C_GetMemberInfo id_RoomID id_UserID
  | C_InviteUser MatrixAPI id_RoomID id_UserID
  | C_EnsureJoined MatrixAPI id_RoomID
  | C_HandleMatrixMessage NetworkAPI "MessageEventContent MatrixEventBase" "Message option" "Message option"
  | C_HandleMatrixEdit NetworkAPI "MessageEventContent MatrixEventBase" Message
  | C_HandleMatrixReaction NetworkAPI "(id_EventID \<times> string) MatrixEventBase" Message
  | C_HandleMatrixMessageRemove NetworkAPI "id_EventID MatrixEventBase" Message
  | C_HandleMatrixReactionRemove NetworkAPI "id_EventID MatrixEventBase" Reaction
  | C_GetChatInfo NetworkAPI Portal
  | C_IsThisUser NetworkAPI networkid_UserID
  | C_ConvertMessage RemoteEvent Portal MatrixAPI
  | C_ConvertEdit RemoteEvent Portal MatrixAPI "Message list"
  | C_Reupload Avatar MatrixAPI Hash
  | C_GetGhostByID networkid_UserID
  | C_UpdateInfoIfNecessary Ghost UserLogin
  | C_GetUserByMXID id_UserID
  | C_GetUserLoginsInPortal networkid_PortalID
  | C_FindLoginsByPortalID id_UserID networkid_PortalID
  | C_GetPartByMXID id_EventID
  | C_GetFirstPartByID networkid_MessageID
  | C_GetFirstOrSpecificPartByID MessageOptionalPartID
  | C_GetAllPartsByID networkid_MessageID
  | C_MessageInsert Message
  | C_MessageUpdate Message
  | C_MessageDelete int
  | C_ReactionGetByMXID id_EventID
  | C_ReactionUpsert Reaction
  | C_PortalUpdate Portal

text \<open>The state a handler runs in: this portal, the other portals of the bridge by id (for
  the parent links), the bridge's \<open>portalsByMXID\<close>, and the calls made so far.\<close>

record state =
  portal :: Portal
  portalsByID :: "(networkid_PortalID \<times> Portal) list"
  portalsByMXID :: "(id_RoomID \<times> networkid_PortalID) list"
  trace :: "call list"

text \<open>The answers of the other packages. A function that takes a context may answer
  differently each time: it sees the calls made so far. A lookup returns an error, or a
  row, or nil. A function without context (an intent getter, the server name, \<open>SetEdit\<close>)
  is a plain function.\<close>

record MatrixConnector =
  X_IntentFor :: "Ghost \<Rightarrow> Portal \<Rightarrow> MatrixAPI"
  X_UserIntent :: "id_UserID \<Rightarrow> MatrixAPI option"
  X_ServerName :: string
  X_SendState :: "call list \<Rightarrow> MatrixAPI \<Rightarrow> id_RoomID \<Rightarrow> EventType \<Rightarrow> string \<Rightarrow> Content \<Rightarrow> Time
                    \<Rightarrow> error option"
  X_SendMessage :: "call list \<Rightarrow> MatrixAPI \<Rightarrow> id_RoomID \<Rightarrow> EventType \<Rightarrow> Content \<Rightarrow> Time
                    \<Rightarrow> error + id_EventID"
  X_CreateRoom :: "call list \<Rightarrow> MatrixAPI \<Rightarrow> ReqCreateRoom \<Rightarrow> error + id_RoomID"
  X_GetMembers :: "call list \<Rightarrow> id_RoomID \<Rightarrow> error + (id_UserID \<times> MemberEventContent) list"
  X_GetMemberInfo :: "call list \<Rightarrow> id_RoomID \<Rightarrow> id_UserID \<Rightarrow> error + MemberEventContent option"
  X_InviteUser :: "call list \<Rightarrow> MatrixAPI \<Rightarrow> id_RoomID \<Rightarrow> id_UserID \<Rightarrow> error option"
  X_EnsureJoined :: "call list \<Rightarrow> MatrixAPI \<Rightarrow> id_RoomID \<Rightarrow> error option"

record NetworkConnector =
  X_HandleMatrixMessage :: "call list \<Rightarrow> NetworkAPI \<Rightarrow> MessageEventContent MatrixEventBase
                    \<Rightarrow> Message option \<Rightarrow> Message option \<Rightarrow> error + Message"
  X_HandleMatrixEdit :: "call list \<Rightarrow> NetworkAPI \<Rightarrow> MessageEventContent MatrixEventBase
                    \<Rightarrow> Message \<Rightarrow> error + Message"
  X_HandleMatrixReaction :: "call list \<Rightarrow> NetworkAPI \<Rightarrow> (id_EventID \<times> string) MatrixEventBase
                    \<Rightarrow> Message \<Rightarrow> error + Reaction option"
  X_HandleMatrixMessageRemove :: "call list \<Rightarrow> NetworkAPI \<Rightarrow> id_EventID MatrixEventBase
                    \<Rightarrow> Message \<Rightarrow> error option"
  X_HandleMatrixReactionRemove :: "call list \<Rightarrow> NetworkAPI \<Rightarrow> id_EventID MatrixEventBase
                    \<Rightarrow> Reaction \<Rightarrow> error option"
  X_GetChatInfo :: "call list \<Rightarrow> NetworkAPI \<Rightarrow> Portal \<Rightarrow> error + PortalInfo"
  X_IsThisUser :: "call list \<Rightarrow> NetworkAPI \<Rightarrow> networkid_UserID \<Rightarrow> bool"
  X_ConvertMessage :: "call list \<Rightarrow> RemoteEvent \<Rightarrow> Portal \<Rightarrow> MatrixAPI \<Rightarrow> error + ConvertedMessage"
  X_ConvertEdit :: "call list \<Rightarrow> RemoteEvent \<Rightarrow> Portal \<Rightarrow> MatrixAPI \<Rightarrow> Message list
                    \<Rightarrow> error + ConvertedEdit"
  X_Reupload :: "call list \<Rightarrow> Avatar \<Rightarrow> MatrixAPI \<Rightarrow> Hash
                    \<Rightarrow> error + (id_ContentURIString \<times> Hash)"

record Database =
  X_GetPartByMXID :: "call list \<Rightarrow> id_EventID \<Rightarrow> error + Message option"
  X_GetFirstPartByID :: "call list \<Rightarrow> networkid_MessageID \<Rightarrow> error + Message option"
  X_GetFirstOrSpecificPartByID :: "call list \<Rightarrow> MessageOptionalPartID \<Rightarrow> error + Message option"
  X_GetAllPartsByID :: "call list \<Rightarrow> networkid_MessageID \<Rightarrow> error + Message list option"
  X_MessageInsert :: "call list \<Rightarrow> Message \<Rightarrow> error option"
  X_MessageUpdate :: "call list \<Rightarrow> Message \<Rightarrow> error option"
  X_MessageDelete :: "call list \<Rightarrow> int \<Rightarrow> error option"
  X_ReactionGetByMXID :: "call list \<Rightarrow> id_EventID \<Rightarrow> error + Reaction option"
  X_ReactionUpsert :: "call list \<Rightarrow> Reaction \<Rightarrow> error option"
  X_PortalUpdate :: "call list \<Rightarrow> Portal \<Rightarrow> error option"
  X_FindLoginsByPortalID :: "call list \<Rightarrow> id_UserID \<Rightarrow> networkid_PortalID
                    \<Rightarrow> error + networkid_UserLoginID list"

record env =
  Bot :: MatrixAPI
  Matrix :: MatrixConnector
  Network :: NetworkConnector
  DB :: Database
  X_GetGhostByID :: "call list \<Rightarrow> networkid_UserID \<Rightarrow> error + Ghost"
  X_GetUserByMXID :: "call list \<Rightarrow> id_UserID \<Rightarrow> error + User"
  X_GetUserLoginsInPortal :: "call list \<Rightarrow> networkid_PortalID \<Rightarrow> error + UserLogin list"
  X_GetCachedUserLoginByID :: "networkid_UserLoginID \<Rightarrow> UserLogin option"
  X_Now :: "call list \<Rightarrow> Time"
  X_SetEdit :: "id_EventID \<Rightarrow> MessageEventContent \<Rightarrow> MessageEventContent"

text \<open>What a function does besides changing the state: it returns, or it panics, or (an
  endless recursion) it does neither.\<close>

datatype 'a outcome = Returns 'a | Panics string | Diverges

definition emit :: "call \<Rightarrow> state \<Rightarrow> state" where
  "emit c s = s\<lparr>trace := trace s @ [c]\<rparr>"

text \<open>\<open>ext f c\<close> makes the call \<open>c\<close>: the answer is \<open>f\<close> of the calls so far.\<close>

definition ext :: "(call list \<Rightarrow> 'a) \<Rightarrow> call \<Rightarrow> state \<Rightarrow> 'a \<times> state" where
  "ext f c s = (f (trace s), emit c s)"

definition Log :: "LogLevel \<Rightarrow> string \<Rightarrow> state \<Rightarrow> state" where
  "Log lvl msg s = emit (C_Log lvl msg) s"

definition SendState ::
  "env \<Rightarrow> MatrixAPI \<Rightarrow> id_RoomID \<Rightarrow> EventType \<Rightarrow> string \<Rightarrow> Content \<Rightarrow> Time \<Rightarrow> state
     \<Rightarrow> error option \<times> state" where
  "SendState env intent room ty stateKey content ts =
     ext (\<lambda>h. X_SendState (Matrix env) h intent room ty stateKey content ts)
         (C_SendState intent room ty stateKey content ts)"

definition SendMessage ::
  "env \<Rightarrow> MatrixAPI \<Rightarrow> id_RoomID \<Rightarrow> EventType \<Rightarrow> Content \<Rightarrow> Time \<Rightarrow> state
     \<Rightarrow> (error + id_EventID) \<times> state" where
  "SendMessage env intent room ty content ts =
     ext (\<lambda>h. X_SendMessage (Matrix env) h intent room ty content ts)
         (C_SendMessage intent room ty content ts)"

definition Reupload ::
  "env \<Rightarrow> Avatar \<Rightarrow> MatrixAPI \<Rightarrow> Hash \<Rightarrow> state \<Rightarrow> (error + (id_ContentURIString \<times> Hash)) \<times> state" where
  "Reupload env avatar intent currentHash =
     ext (\<lambda>h. X_Reupload (Network env) h avatar intent currentHash)
         (C_Reupload avatar intent currentHash)"

definition GetGhostByID :: "env \<Rightarrow> networkid_UserID \<Rightarrow> state \<Rightarrow> (error + Ghost) \<times> state" where
  "GetGhostByID env uid = ext (\<lambda>h. X_GetGhostByID env h uid) (C_GetGhostByID uid)"

definition UpdateInfoIfNecessary :: "Ghost \<Rightarrow> UserLogin \<Rightarrow> state \<Rightarrow> state" where
  "UpdateInfoIfNecessary ghost source s = emit (C_UpdateInfoIfNecessary ghost source) s"

definition GetPartByMXID :: "env \<Rightarrow> id_EventID \<Rightarrow> state \<Rightarrow> (error + Message option) \<times> state" where
  "GetPartByMXID env mxid = ext (\<lambda>h. X_GetPartByMXID (DB env) h mxid) (C_GetPartByMXID mxid)"

definition GetFirstPartByID ::
  "env \<Rightarrow> networkid_MessageID \<Rightarrow> state \<Rightarrow> (error + Message option) \<times> state" where
  "GetFirstPartByID env mid = ext (\<lambda>h. X_GetFirstPartByID (DB env) h mid) (C_GetFirstPartByID mid)"

definition GetFirstOrSpecificPartByID ::
  "env \<Rightarrow> MessageOptionalPartID \<Rightarrow> state \<Rightarrow> (error + Message option) \<times> state" where
  "GetFirstOrSpecificPartByID env mid =
     ext (\<lambda>h. X_GetFirstOrSpecificPartByID (DB env) h mid) (C_GetFirstOrSpecificPartByID mid)"

definition GetAllPartsByID ::
  "env \<Rightarrow> networkid_MessageID \<Rightarrow> state \<Rightarrow> (error + Message list option) \<times> state" where
  "GetAllPartsByID env mid = ext (\<lambda>h. X_GetAllPartsByID (DB env) h mid) (C_GetAllPartsByID mid)"

definition MessageInsert :: "env \<Rightarrow> Message \<Rightarrow> state \<Rightarrow> error option \<times> state" where
  "MessageInsert env m = ext (\<lambda>h. X_MessageInsert (DB env) h m) (C_MessageInsert m)"

definition MessageUpdate :: "env \<Rightarrow> Message \<Rightarrow> state \<Rightarrow> error option \<times> state" where
  "MessageUpdate env m = ext (\<lambda>h. X_MessageUpdate (DB env) h m) (C_MessageUpdate m)"

definition MessageDelete :: "env \<Rightarrow> int \<Rightarrow> state \<Rightarrow> error option \<times> state" where
  "MessageDelete env rowid = ext (\<lambda>h. X_MessageDelete (DB env) h rowid) (C_MessageDelete rowid)"

definition ReactionGetByMXID :: "env \<Rightarrow> id_EventID \<Rightarrow> state \<Rightarrow> (error + Reaction option) \<times> state" where
  "ReactionGetByMXID env mxid =
     ext (\<lambda>h. X_ReactionGetByMXID (DB env) h mxid) (C_ReactionGetByMXID mxid)"

definition ReactionUpsert :: "env \<Rightarrow> Reaction \<Rightarrow> state \<Rightarrow> error option \<times> state" where
  "ReactionUpsert env r = ext (\<lambda>h. X_ReactionUpsert (DB env) h r) (C_ReactionUpsert r)"

definition PortalUpdate :: "env \<Rightarrow> Portal \<Rightarrow> state \<Rightarrow> error option \<times> state" where
  "PortalUpdate env p = ext (\<lambda>h. X_PortalUpdate (DB env) h p) (C_PortalUpdate p)"

text \<open>Logging an error that may be nil: \<open>log.Err(err).Msg(...)\<close> guarded by \<open>err != nil\<close>.\<close>

definition logIfErr :: "error option \<Rightarrow> string \<Rightarrow> state \<Rightarrow> state" where
  "logIfErr err msg s = (case err of None \<Rightarrow> s | Some e \<Rightarrow> Log ErrorLevel msg s)"

section \<open>Info updater\<close>

text \<open>\<open>sendRoomMeta\<close>: no room, nothing sent. Otherwise the state event goes out through the
  sender ghost's intent (the bot when there is no sender); when that fails with
  \<open>M_FORBIDDEN\<close> and the intent is not the bot, the content gets the raw key
  \<open>fi.mau.bridge.set_by\<close> and the bot sends it, with the event type and state key the
  source writes there: \<open>event.StateRoomName\<close> and the empty string.\<close>

definition sendRoomMeta ::
  "env \<Rightarrow> Ghost option \<Rightarrow> Time \<Rightarrow> EventType \<Rightarrow> string \<Rightarrow> Parsed \<Rightarrow> state \<Rightarrow> bool \<times> state" where
  "sendRoomMeta env sender ts eventType stateKey content s =
     (if MXID (portal s) = [] then (False, s)
      else
        let intent = (case sender of None \<Rightarrow> Bot env
                      | Some g \<Rightarrow> X_IntentFor (Matrix env) g (portal s));
            wrappedContent = \<lparr>Parsed = content, Raw = None\<rparr>;
            (err, s1) = SendState env intent (MXID (portal s)) eventType stateKey wrappedContent ts s;
            (err, s2) =
              (if errors_Is err MForbidden \<and> intent \<noteq> Bot env then
                 SendState env (Bot env) (MXID (portal s1)) StateRoomName []
                   (wrappedContent\<lparr>Raw := Some [(''fi.mau.bridge.set_by'', AUserID (GetMXID intent))]\<rparr>)
                   ts s1
               else (err, s1))
        in case err of
             Some e \<Rightarrow> (False, Log ErrorLevel ''Failed to set room metadata'' s2)
           | None \<Rightarrow> (True, s2))"

definition UpdateName :: "env \<Rightarrow> string \<Rightarrow> Ghost option \<Rightarrow> Time \<Rightarrow> state \<Rightarrow> bool \<times> state" where
  "UpdateName env name sender ts s =
     (if Name (portal s) = name \<and> (NameSet (portal s) \<or> MXID (portal s) = []) then (False, s)
      else
        let s1 = s\<lparr>portal := (portal s)\<lparr>Name := name\<rparr>\<rparr>;
            (ok, s2) = sendRoomMeta env sender ts StateRoomName [] (RoomNameEventContent name) s1
        in (True, s2\<lparr>portal := (portal s2)\<lparr>NameSet := ok\<rparr>\<rparr>))"

definition UpdateTopic :: "env \<Rightarrow> string \<Rightarrow> Ghost option \<Rightarrow> Time \<Rightarrow> state \<Rightarrow> bool \<times> state" where
  "UpdateTopic env topic sender ts s =
     (if Topic (portal s) = topic \<and> (TopicSet (portal s) \<or> MXID (portal s) = []) then (False, s)
      else
        let s1 = s\<lparr>portal := (portal s)\<lparr>Topic := topic\<rparr>\<rparr>;
            (ok, s2) = sendRoomMeta env sender ts StateTopic [] (TopicEventContent topic) s1
        in (True, s2\<lparr>portal := (portal s2)\<lparr>TopicSet := ok\<rparr>\<rparr>))"

text \<open>The last two lines of \<open>UpdateAvatar\<close>, reached from both branches of \<open>avatar.Remove\<close>:
  send the state event and keep in \<open>AvatarSet\<close> whether it was accepted.\<close>

definition sendAvatarMeta :: "env \<Rightarrow> Ghost option \<Rightarrow> Time \<Rightarrow> state \<Rightarrow> bool \<times> state" where
  "sendAvatarMeta env sender ts s =
     (let (ok, s1) = sendRoomMeta env sender ts StateRoomAvatar []
                       (RoomAvatarEventContent (AvatarMXC (portal s))) s
      in (True, s1\<lparr>portal := (portal s1)\<lparr>AvatarSet := ok\<rparr>\<rparr>))"

definition UpdateAvatar :: "env \<Rightarrow> Avatar \<Rightarrow> Ghost option \<Rightarrow> Time \<Rightarrow> state \<Rightarrow> bool \<times> state" where
  "UpdateAvatar env avatar sender ts s =
     (if AvatarID (portal s) = avatar_ID avatar \<and> (AvatarSet (portal s) \<or> MXID (portal s) = [])
      then (False, s)
      else
        let s1 = s\<lparr>portal := (portal s)\<lparr>AvatarID := avatar_ID avatar\<rparr>\<rparr>;
            intent = (case sender of None \<Rightarrow> Bot env
                      | Some g \<Rightarrow> X_IntentFor (Matrix env) g (portal s1))
        in if Remove avatar then
             sendAvatarMeta env sender ts
               (s1\<lparr>portal := (portal s1)\<lparr>AvatarMXC := [], AvatarHash := replicate 32 0\<rparr>\<rparr>)
           else
             let (r, s2) = Reupload env avatar intent (AvatarHash (portal s1)) s1
             in case r of
                  Inl err \<Rightarrow>
                    (True, Log ErrorLevel ''Failed to reupload room avatar''
                             (s2\<lparr>portal := (portal s2)\<lparr>AvatarSet := False\<rparr>\<rparr>))
                | Inr (newMXC, newHash) \<Rightarrow>
                    if newHash = AvatarHash (portal s2) then (True, s2)
                    else sendAvatarMeta env sender ts
                           (s2\<lparr>portal := (portal s2)\<lparr>AvatarMXC := newMXC, AvatarHash := newHash\<rparr>\<rparr>))"

section \<open>Matrix event handlers\<close>

definition HandleMatrixMessage ::
  "env \<Rightarrow> NetworkAPI \<Rightarrow> MessageEventContent MatrixEventBase \<Rightarrow> Message option \<Rightarrow> Message option
     \<Rightarrow> state \<Rightarrow> (error + Message) \<times> state" where
  "HandleMatrixMessage env client base threadRoot replyTo =
     ext (\<lambda>h. X_HandleMatrixMessage (Network env) h client base threadRoot replyTo)
         (C_HandleMatrixMessage client base threadRoot replyTo)"

text \<open>\<open>HandleMatrixEdit\<close> gets a pointer to the target row and returns an error only; the row
  as the client left it is what the portal saves afterwards, so the answer here is the
  error or that row.\<close>

definition HandleMatrixEdit ::
  "env \<Rightarrow> NetworkAPI \<Rightarrow> MessageEventContent MatrixEventBase \<Rightarrow> Message
     \<Rightarrow> state \<Rightarrow> (error + Message) \<times> state" where
  "HandleMatrixEdit env client base editTarget =
     ext (\<lambda>h. X_HandleMatrixEdit (Network env) h client base editTarget)
         (C_HandleMatrixEdit client base editTarget)"

text \<open>The closure \<open>GetExisting\<close> handed to \<open>HandleMatrixReaction\<close> reads the reaction table when
  the client calls it; those reads are the client's, inside its answer.\<close>

definition HandleMatrixReaction ::
  "env \<Rightarrow> NetworkAPI \<Rightarrow> (id_EventID \<times> string) MatrixEventBase \<Rightarrow> Message
     \<Rightarrow> state \<Rightarrow> (error + Reaction option) \<times> state" where
  "HandleMatrixReaction env client base target =
     ext (\<lambda>h. X_HandleMatrixReaction (Network env) h client base target)
         (C_HandleMatrixReaction client base target)"

definition HandleMatrixMessageRemove ::
  "env \<Rightarrow> NetworkAPI \<Rightarrow> id_EventID MatrixEventBase \<Rightarrow> Message \<Rightarrow> state \<Rightarrow> error option \<times> state" where
  "HandleMatrixMessageRemove env client base target =
     ext (\<lambda>h. X_HandleMatrixMessageRemove (Network env) h client base target)
         (C_HandleMatrixMessageRemove client base target)"

definition HandleMatrixReactionRemove ::
  "env \<Rightarrow> NetworkAPI \<Rightarrow> id_EventID MatrixEventBase \<Rightarrow> Reaction \<Rightarrow> state \<Rightarrow> error option \<times> state" where
  "HandleMatrixReactionRemove env client base target =
     ext (\<lambda>h. X_HandleMatrixReactionRemove (Network env) h client base target)
         (C_HandleMatrixReactionRemove client base target)"

text \<open>Calling a method of \<open>sender.Client\<close> when the client is nil panics.\<close>

definition nilDereference :: string where
  "nilDereference = ''invalid memory address or nil pointer dereference''"

definition handleMatrixEdit ::
  "env \<Rightarrow> UserLogin \<Rightarrow> OrigSender option \<Rightarrow> Event \<Rightarrow> MessageEventContent \<Rightarrow> state
     \<Rightarrow> unit outcome \<times> state" where
  "handleMatrixEdit env sender origSender evt content0 s =
     (let editTargetID = GetReplaceID (RelatesTo content0);
          content = (case NewContent content0 of Some c \<Rightarrow> c | None \<Rightarrow> content0);
          (r, s1) = GetPartByMXID env editTargetID s
      in case r of
           Inl err \<Rightarrow>
             (Returns (), Log ErrorLevel ''Failed to get edit target message from database'' s1)
         | Inr None \<Rightarrow>
             (Returns (), Log WarnLevel ''Edit target message not found in database'' s1)
         | Inr (Some editTarget) \<Rightarrow>
             (case Client sender of
                None \<Rightarrow> (Panics nilDereference, s1)
              | Some client \<Rightarrow>
                  let (r2, s2) = HandleMatrixEdit env client
                        \<lparr>base_Event = evt, base_Content = content, base_Portal = portal s1,
                         base_OrigSender = origSender\<rparr> editTarget s1
                  in (case r2 of
                        Inl err \<Rightarrow> (Returns (), Log ErrorLevel ''Failed to handle Matrix edit'' s2)
                      | Inr edited \<Rightarrow>
                          (let (err, s3) = MessageUpdate env edited s2
                           in (Returns (),
                               logIfErr err ''Failed to save message to database after editing'' s3)))))"

text \<open>The two lookups of \<open>handleMatrixMessage\<close> (thread root, reply target): no lookup for
  an empty id; an error is logged and leaves the pointer nil.\<close>

definition lookupRelated ::
  "env \<Rightarrow> id_EventID \<Rightarrow> string \<Rightarrow> state \<Rightarrow> Message option \<times> state" where
  "lookupRelated env mxid msg s =
     (if mxid = [] then (None, s)
      else let (r, s1) = GetPartByMXID env mxid s
           in case r of Inl err \<Rightarrow> (None, Log ErrorLevel msg s1) | Inr m \<Rightarrow> (m, s1))"

definition handleMatrixMessage ::
  "env \<Rightarrow> UserLogin \<Rightarrow> OrigSender option \<Rightarrow> Event \<Rightarrow> state \<Rightarrow> unit outcome \<times> state" where
  "handleMatrixMessage env sender origSender evt s =
     (case Parsed (evt_Content evt) of
        MessageContent content \<Rightarrow>
          if GetReplaceID (RelatesTo content) \<noteq> [] then
            handleMatrixEdit env sender origSender evt content s
          else
            let (threadRoot, s1) = lookupRelated env (GetThreadParent (RelatesTo content))
                                     ''Failed to get thread root message from database'' s;
                (replyTo, s2) = lookupRelated env (GetNonFallbackReplyTo (RelatesTo content))
                                     ''Failed to get reply target message from database'' s1
            in (case Client sender of
                  None \<Rightarrow> (Panics nilDereference, s2)
                | Some client \<Rightarrow>
                    let (r, s3) = HandleMatrixMessage env client
                          \<lparr>base_Event = evt, base_Content = content, base_Portal = portal s2,
                           base_OrigSender = origSender\<rparr> threadRoot replyTo s2
                    in (case r of
                          Inl err \<Rightarrow> (Returns (), Log ErrorLevel ''Failed to handle Matrix message'' s3)
                        | Inr message0 \<Rightarrow>
                            (let message = message0\<lparr>Metadata :=
                                   map_set ''sender_mxid'' (AUserID (evt_Sender evt)) (Metadata message0)\<rparr>;
                                 (ghost, s4) = GetGhostByID env (msg_SenderID message) s3;
                                 (err, s5) = MessageInsert env message s4
                             in (Returns (), logIfErr err ''Failed to save message to database'' s5))))
      | _ \<Rightarrow> (Returns (), Log ErrorLevel ''Unexpected parsed content type'' s))"

definition handleMatrixReaction ::
  "env \<Rightarrow> UserLogin \<Rightarrow> Event \<Rightarrow> state \<Rightarrow> unit outcome \<times> state" where
  "handleMatrixReaction env sender evt s =
     (case Parsed (evt_Content evt) of
        ReactionEventContent targetID key \<Rightarrow>
          let (r, s1) = GetPartByMXID env targetID s
          in (case r of
                Inl err \<Rightarrow>
                  (Returns (), Log ErrorLevel ''Failed to get reaction target message from database'' s1)
              | Inr None \<Rightarrow>
                  (Returns (), Log WarnLevel ''Reaction target message not found in database'' s1)
              | Inr (Some reactionTarget) \<Rightarrow>
                  (case Client sender of
                     None \<Rightarrow> (Panics nilDereference, s1)
                   | Some client \<Rightarrow>
                       let (r2, s2) = HandleMatrixReaction env client
                             \<lparr>base_Event = evt, base_Content = (targetID, key),
                              base_Portal = portal s1, base_OrigSender = None\<rparr> reactionTarget s1
                       in (case r2 of
                             Inl err \<Rightarrow>
                               (Returns (), Log ErrorLevel ''Failed to handle Matrix reaction'' s2)
                           | Inr (Some dbReaction) \<Rightarrow>
                               (let (err, s3) = ReactionUpsert env dbReaction s2
                                in (Returns (), logIfErr err ''Failed to save reaction to database'' s3))
                           | Inr None \<Rightarrow> (Returns (), Log DebugLevel ''Reaction was ignored'' s2))))
      | _ \<Rightarrow> (Returns (), Log ErrorLevel ''Unexpected parsed content type'' s))"

text \<open>\<open>handleMatrixRedaction\<close>. The target id is \<open>evt.Redacts\<close> whenever that is not empty (it
  is written over \<open>content.Redacts\<close>, which the event shares), else \<open>content.Redacts\<close>. Both
  tables are read before either removal is called; after a removal that succeeded the
  function ends (the source has a TODO for deleting the row there).\<close>

definition handleMatrixRedaction ::
  "env \<Rightarrow> UserLogin \<Rightarrow> OrigSender option \<Rightarrow> Event \<Rightarrow> state \<Rightarrow> unit outcome \<times> state" where
  "handleMatrixRedaction env sender origSender evt0 s =
     (case Parsed (evt_Content evt0) of
        RedactionEventContent redacts0 \<Rightarrow>
          let redacts = (if evt_Redacts evt0 \<noteq> [] \<and> redacts0 \<noteq> evt_Redacts evt0
                         then evt_Redacts evt0 else redacts0);
              evt = evt0\<lparr>evt_Content := (evt_Content evt0)\<lparr>Parsed := RedactionEventContent redacts\<rparr>\<rparr>;
              (r1, s1) = GetPartByMXID env redacts s
          in (case r1 of
                Inl err \<Rightarrow>
                  (Returns (), Log ErrorLevel ''Failed to get redaction target message from database'' s1)
              | Inr redactionTargetMsg \<Rightarrow>
                  let (r2, s2) = ReactionGetByMXID env redacts s1
                  in (case r2 of
                        Inl err \<Rightarrow>
                          (Returns (),
                           Log ErrorLevel ''Failed to get redaction target reaction from database'' s2)
                      | Inr redactionTargetReaction \<Rightarrow>
                          let base = \<lparr>base_Event = evt, base_Content = redacts,
                                      base_Portal = portal s2, base_OrigSender = origSender\<rparr>
                          in (case redactionTargetMsg of
                                Some targetMessage \<Rightarrow>
                                  (case Client sender of
                                     None \<Rightarrow> (Panics nilDereference, s2)
                                   | Some client \<Rightarrow>
                                       let (err, s3) = HandleMatrixMessageRemove env client base
                                                         targetMessage s2
                                       in (Returns (),
                                           logIfErr err ''Failed to handle Matrix redaction'' s3))
                              | None \<Rightarrow>
                                  (case redactionTargetReaction of
                                     Some targetReaction \<Rightarrow>
                                       (case Client sender of
                                          None \<Rightarrow> (Panics nilDereference, s2)
                                        | Some client \<Rightarrow>
                                            let (err, s3) = HandleMatrixReactionRemove env client base
                                                              targetReaction s2
                                            in (Returns (),
                                                logIfErr err ''Failed to handle Matrix redaction'' s3))
                                   | None \<Rightarrow>
                                       (Returns (),
                                        Log DebugLevel
                                          ''Redaction target message not found in database'' s2)))))
      | _ \<Rightarrow> (Returns (), Log ErrorLevel ''Unexpected parsed content type'' s))"

section \<open>Remote event handlers\<close>

definition ConvertMessage ::
  "env \<Rightarrow> RemoteEvent \<Rightarrow> Portal \<Rightarrow> MatrixAPI \<Rightarrow> state \<Rightarrow> (error + ConvertedMessage) \<times> state" where
  "ConvertMessage env evt p intent =
     ext (\<lambda>h. X_ConvertMessage (Network env) h evt p intent) (C_ConvertMessage evt p intent)"

definition ConvertEdit ::
  "env \<Rightarrow> RemoteEvent \<Rightarrow> Portal \<Rightarrow> MatrixAPI \<Rightarrow> Message list \<Rightarrow> state
     \<Rightarrow> (error + ConvertedEdit) \<times> state" where
  "ConvertEdit env evt p intent existing =
     ext (\<lambda>h. X_ConvertEdit (Network env) h evt p intent existing)
         (C_ConvertEdit evt p intent existing)"

text \<open>\<open>getIntentFor\<close>: the user's own intent for an event from the source login itself, else
  the intent of the cached login named as sender, else the ghost's; nil only when the
  ghost cannot be loaded.\<close>

definition getIntentFor ::
  "env \<Rightarrow> EventSender \<Rightarrow> UserLogin \<Rightarrow> state \<Rightarrow> MatrixAPI option \<times> state" where
  "getIntentFor env sender source s =
     (let intent1 = (if IsFromMe sender then X_UserIntent (Matrix env) (UserMXID source) else None);
          intent2 = (if intent1 = None \<and> SenderLogin sender \<noteq> [] then
                       (case X_GetCachedUserLoginByID env (SenderLogin sender) of
                          Some senderLogin \<Rightarrow> X_UserIntent (Matrix env) (UserMXID senderLogin)
                        | None \<Rightarrow> intent1)
                     else intent1)
      in if intent2 = None then
           (let (r, s1) = GetGhostByID env (Sender sender) s
            in case r of
                 Inl err \<Rightarrow> (None, Log ErrorLevel ''Failed to get ghost for message sender'' s1)
               | Inr ghost \<Rightarrow> (Some (Intent ghost), UpdateInfoIfNecessary ghost source s1))
         else (intent2, s))"

definition setRelatesTo :: "RelatesTo \<Rightarrow> MessageEventContent \<Rightarrow> MessageEventContent" where
  "setRelatesTo rel c = MessageEventContent (Body c) rel (NewContent c) (Mentions c)"

definition setMentions :: "id_UserID list option \<Rightarrow> MessageEventContent \<Rightarrow> MessageEventContent" where
  "setMentions ms c = MessageEventContent (Body c) (RelatesTo c) (NewContent c) ms"

text \<open>What the loop of \<open>handleRemoteMessage\<close> writes into the content of a part before
  sending it: the thread relation, then the reply relation and a mention of the reply
  target's sender (when the row has one as a string and it is not mentioned yet).\<close>

definition relateContent ::
  "Message option \<Rightarrow> Message option \<Rightarrow> Message option \<Rightarrow> MessageEventContent \<Rightarrow> MessageEventContent" where
  "relateContent replyTo threadRoot prevThreadEvent content0 =
     (let content1 =
            (case threadRoot of
               None \<Rightarrow> content0
             | Some root \<Rightarrow>
                 (case prevThreadEvent of
                    None \<Rightarrow> content0
                  | Some prev \<Rightarrow>
                      setRelatesTo (SetThread (msg_MXID root) (msg_MXID prev) (RelatesTo content0))
                        content0))
      in case replyTo of
           None \<Rightarrow> content1
         | Some target \<Rightarrow>
             (let content2 = setRelatesTo (SetReplyTo (msg_MXID target) (RelatesTo content1)) content1;
                  userIDs = (case Mentions content2 of None \<Rightarrow> [] | Some us \<Rightarrow> us)
              in setMentions
                   (Some (case map_of (Metadata target) ''sender_mxid'' of
                            Some (AString replyTargetSenderMXID) \<Rightarrow>
                              if replyTargetSenderMXID \<in> set userIDs then userIDs
                              else userIDs @ [replyTargetSenderMXID]
                          | _ \<Rightarrow> userIDs))
                   content2))"

text \<open>The loop over \<open>converted.Parts\<close>. A part that fails to send is logged and skipped; a part
  that is sent gets a row whose \<open>RelatesToRowID\<close> is the one computed before the loop. The
  loop carries \<open>prevThreadEvent\<close>.\<close>

fun handleRemoteMessage_parts ::
  "env \<Rightarrow> MatrixAPI \<Rightarrow> RemoteEvent \<Rightarrow> Time \<Rightarrow> int \<Rightarrow> Message option \<Rightarrow> Message option
     \<Rightarrow> Message option \<Rightarrow> ConvertedMessagePart list \<Rightarrow> state \<Rightarrow> state" where
  "handleRemoteMessage_parts env intent evt ts relatesToRowID replyTo threadRoot prevThreadEvent [] s = s"
| "handleRemoteMessage_parts env intent evt ts relatesToRowID replyTo threadRoot prevThreadEvent
     (part # parts) s =
     (let content = relateContent replyTo threadRoot prevThreadEvent (part_Content part);
          (resp, s1) = SendMessage env intent (MXID (portal s)) (part_Type part)
                         \<lparr>Parsed = MessageContent content, Raw = part_Extra part\<rparr> ts s
      in case resp of
           Inl err \<Rightarrow>
             handleRemoteMessage_parts env intent evt ts relatesToRowID replyTo threadRoot
               prevThreadEvent parts
               (Log ErrorLevel ''Failed to send message part to Matrix'' s1)
         | Inr eventID \<Rightarrow>
             (let dbMessage = \<lparr>RowID = 0, msg_ID = GetID evt, msg_PartID = part_ID part,
                    msg_MXID = eventID, msg_RoomID = ID (portal s1),
                    msg_SenderID = Sender (GetSender evt), msg_Timestamp = ts,
                    RelatesToRowID = relatesToRowID,
                    Metadata = map_set ''sender_mxid'' (AUserID (GetMXID intent))
                                 (part_DBMetadata part)\<rparr>;
                  (err, s2) = MessageInsert env dbMessage s1
              in handleRemoteMessage_parts env intent evt ts relatesToRowID replyTo threadRoot
                   (case prevThreadEvent of None \<Rightarrow> None | Some prev \<Rightarrow> Some dbMessage) parts
                   (logIfErr err ''Failed to save message part to database'' s2)))"

text \<open>One of the two blocks \<open>if converted.ReplyTo != nil\<close> and \<open>if converted.ThreadRoot != nil\<close>:
  given the \<open>relatesToRowID\<close> so far, look the row up. An error is logged and leaves the
  pointer nil; a lookup that finds nothing returns nil without an error, and reading
  \<open>RowID\<close> through it panics.\<close>

definition lookupRelation ::
  "env \<Rightarrow> MessageOptionalPartID option \<Rightarrow> string \<Rightarrow> int \<Rightarrow> state
     \<Rightarrow> (int \<times> Message option) outcome \<times> state" where
  "lookupRelation env ref msg relatesToRowID s =
     (case ref of
        None \<Rightarrow> (Returns (relatesToRowID, None), s)
      | Some mid \<Rightarrow>
          (let (r, s1) = GetFirstOrSpecificPartByID env mid s
           in case r of
                Inl err \<Rightarrow> (Returns (relatesToRowID, None), Log ErrorLevel msg s1)
              | Inr None \<Rightarrow> (Panics nilDereference, s1)
              | Inr (Some row) \<Rightarrow> (Returns (RowID row, Some row), s1)))"

definition handleRemoteMessage ::
  "env \<Rightarrow> UserLogin \<Rightarrow> RemoteEvent \<Rightarrow> state \<Rightarrow> unit outcome \<times> state" where
  "handleRemoteMessage env source evt s =
     (let (existing, s0) = GetFirstPartByID env (GetID evt) s
      in case existing of
           Inr (Some row) \<Rightarrow> (Returns (), Log DebugLevel ''Ignoring duplicate message'' s0)
         | _ \<Rightarrow>
           (let s1 = (case existing of
                        Inl err \<Rightarrow> Log ErrorLevel ''Failed to check if message is a duplicate'' s0
                      | _ \<Rightarrow> s0);
                (intent, s2) = getIntentFor env (GetSender evt) source s1
            in case intent of
                 None \<Rightarrow> (Returns (), s2)
               | Some intent \<Rightarrow>
                   (let (conv, s3) = ConvertMessage env evt (portal s2) intent s2
                    in case conv of
                         Inl err \<Rightarrow> (Returns (), s3)
                       | Inr converted \<Rightarrow>
                           (let (reply, s4) = lookupRelation env (ReplyTo converted)
                                  ''Failed to get reply target message from database'' 0 s3
                            in case reply of
                                 Panics p \<Rightarrow> (Panics p, s4)
                               | Diverges \<Rightarrow> (Diverges, s4)
                               | Returns (rowID1, replyTo) \<Rightarrow>
                                   (let (thread, s5) = lookupRelation env (ThreadRoot converted)
                                          ''Failed to get thread root message from database'' rowID1 s4
                                    in case thread of
                                         Panics p \<Rightarrow> (Panics p, s5)
                                       | Diverges \<Rightarrow> (Diverges, s5)
                                       | Returns (relatesToRowID, threadRoot) \<Rightarrow>
                                           (Returns (),
                                            handleRemoteMessage_parts env intent evt
                                              (Timestamp converted) relatesToRowID replyTo threadRoot
                                              threadRoot (Parts converted) s5))))))"

section \<open>Bridge info and portal info\<close>

text \<open>The portal a \<open>Parent\<close> pointer leads to: this portal itself as it is now, or another
  portal of the bridge. A pointer always leads somewhere; an id the state does not hold
  has no portal here.\<close>

definition parentPortal :: "state \<Rightarrow> networkid_PortalID \<Rightarrow> Portal option" where
  "parentPortal s pid = (if pid = ID (portal s) then Some (portal s) else map_of (portalsByID s) pid)"

text \<open>\<open>GetTopLevelParent\<close> follows the parent pointers to a portal without parent. The source
  notes that nothing stops the recursion when the pointers run in a circle: then there is
  no result.\<close>

partial_function (option) GetTopLevelParent :: "state \<Rightarrow> Portal \<Rightarrow> Portal option" where
  "GetTopLevelParent s p =
     (case Parent p of
        None \<Rightarrow> Some p
      | Some pid \<Rightarrow> (case parentPortal s pid of None \<Rightarrow> None | Some q \<Rightarrow> GetTopLevelParent s q))"

definition getBridgeInfo :: "env \<Rightarrow> state \<Rightarrow> (string \<times> BridgeEventContent) option" where
  "getBridgeInfo env s =
     (case GetTopLevelParent s (portal s) of
        None \<Rightarrow> None
      | Some parent \<Rightarrow>
          Some (BridgeID (portal s),
                \<lparr>BridgeBot = GetMXID (Bot env), Creator = GetMXID (Bot env),
                 Protocol = \<lparr>bis_ID = ''signal'', bis_DisplayName = ''Signal'', bis_AvatarURL = [],
                             bis_ExternalURL = ''https://signal.org/''\<rparr>,
                 bridge_Network = Some \<lparr>bis_ID = ID parent, bis_DisplayName = Name parent,
                                        bis_AvatarURL = AvatarMXC parent, bis_ExternalURL = []\<rparr>,
                 Channel = \<lparr>bis_ID = ID (portal s), bis_DisplayName = Name (portal s),
                            bis_AvatarURL = AvatarMXC (portal s), bis_ExternalURL = []\<rparr>\<rparr>))"

definition UpdateBridgeInfo :: "env \<Rightarrow> state \<Rightarrow> unit outcome \<times> state" where
  "UpdateBridgeInfo env s =
     (if MXID (portal s) = [] then (Returns (), s)
      else case getBridgeInfo env s of
             None \<Rightarrow> (Diverges, s)
           | Some (stateKey, bridgeInfo) \<Rightarrow>
               (let (ok1, s1) = sendRoomMeta env None (X_Now env (trace s)) StateBridge stateKey
                                  (BridgeContent bridgeInfo) s;
                    (ok2, s2) = sendRoomMeta env None (X_Now env (trace s1)) StateHalfShotBridge stateKey
                                  (BridgeContent bridgeInfo) s1
                in (Returns (), s2)))"

definition UpdateInfo :: "env \<Rightarrow> PortalInfo \<Rightarrow> Ghost option \<Rightarrow> Time \<Rightarrow> state \<Rightarrow> unit outcome \<times> state" where
  "UpdateInfo env info sender ts s =
     (let (changed1, s1) = (case info_Name info of
                              None \<Rightarrow> (False, s)
                            | Some name \<Rightarrow> UpdateName env name sender ts s);
          (changed2, s2) = (case info_Topic info of
                              None \<Rightarrow> (changed1, s1)
                            | Some topic \<Rightarrow>
                                (let (c, s') = UpdateTopic env topic sender ts s1 in (c \<or> changed1, s')));
          (changed, s3) = (case info_Avatar info of
                             None \<Rightarrow> (changed2, s2)
                           | Some avatar \<Rightarrow>
                               (let (c, s') = UpdateAvatar env avatar sender ts s2 in (c \<or> changed2, s')))
      in if changed then
           (let (out, s4) = UpdateBridgeInfo env s3
            in case out of
                 Returns u \<Rightarrow>
                   (let (err, s5) = PortalUpdate env (portal s4) s4
                    in (Returns (),
                        logIfErr err ''Failed to save portal to database after updating info'' s5))
               | Panics p \<Rightarrow> (Panics p, s4)
               | Diverges \<Rightarrow> (Diverges, s4))
         else (Returns (), s3))"

section \<open>Membership syncer\<close>

definition GetUserLoginsInPortal ::
  "env \<Rightarrow> networkid_PortalID \<Rightarrow> state \<Rightarrow> (error + UserLogin list) \<times> state" where
  "GetUserLoginsInPortal env pid =
     ext (\<lambda>h. X_GetUserLoginsInPortal env h pid) (C_GetUserLoginsInPortal pid)"

definition IsThisUser :: "env \<Rightarrow> NetworkAPI \<Rightarrow> networkid_UserID \<Rightarrow> state \<Rightarrow> bool \<times> state" where
  "IsThisUser env client uid = ext (\<lambda>h. X_IsThisUser (Network env) h client uid) (C_IsThisUser client uid)"

definition GetMembers ::
  "env \<Rightarrow> id_RoomID \<Rightarrow> state \<Rightarrow> (error + (id_UserID \<times> MemberEventContent) list) \<times> state" where
  "GetMembers env room = ext (\<lambda>h. X_GetMembers (Matrix env) h room) (C_GetMembers room)"

definition EnsureJoined :: "env \<Rightarrow> MatrixAPI \<Rightarrow> id_RoomID \<Rightarrow> state \<Rightarrow> error option \<times> state" where
  "EnsureJoined env intent room =
     ext (\<lambda>h. X_EnsureJoined (Matrix env) h intent room) (C_EnsureJoined intent room)"

definition InviteUser :: "env \<Rightarrow> MatrixAPI \<Rightarrow> id_RoomID \<Rightarrow> id_UserID \<Rightarrow> state \<Rightarrow> error option \<times> state" where
  "InviteUser env intent room uid =
     ext (\<lambda>h. X_InviteUser (Matrix env) h intent room uid) (C_InviteUser intent room uid)"

text \<open>The inner loop of \<open>SyncParticipants\<close>: the first login of the portal whose client says
  the member is its own user (the loop breaks there).\<close>

fun findLoginOf ::
  "env \<Rightarrow> networkid_UserID \<Rightarrow> UserLogin list \<Rightarrow> state \<Rightarrow> UserLogin option outcome \<times> state" where
  "findLoginOf env member [] s = (Returns None, s)"
| "findLoginOf env member (login # loginsInPortal) s =
     (case Client login of
        None \<Rightarrow> (Panics nilDereference, s)
      | Some client \<Rightarrow>
          (let (isThis, s1) = IsThisUser env client member s
           in if isThis then (Returns (Some login), s1)
              else findLoginOf env member loginsInPortal s1))"

text \<open>The loop over \<open>members\<close>. It carries \<open>expectedUserIDs\<close>, \<open>expectedExtraUsers\<close> and the
  intents found so far (\<open>expectedIntents[0..i)\<close>), and stops with an error when a ghost
  cannot be loaded.\<close>

fun planMembers ::
  "env \<Rightarrow> UserLogin \<Rightarrow> UserLogin list \<Rightarrow> networkid_UserID list
     \<Rightarrow> id_UserID list \<Rightarrow> id_UserID list \<Rightarrow> MatrixAPI list \<Rightarrow> state
     \<Rightarrow> (error + (id_UserID list \<times> id_UserID list \<times> MatrixAPI list)) outcome \<times> state" where
  "planMembers env source loginsInPortal [] expectedUserIDs expectedExtraUsers expectedIntents s =
     (Returns (Inr (expectedUserIDs, expectedExtraUsers, expectedIntents)), s)"
| "planMembers env source loginsInPortal (member # members) expectedUserIDs expectedExtraUsers
     expectedIntents s =
     (let (found, s1) = findLoginOf env member loginsInPortal s
      in case found of
           Panics p \<Rightarrow> (Panics p, s1)
         | Diverges \<Rightarrow> (Diverges, s1)
         | Returns login \<Rightarrow>
             (let userIntent = (case login of None \<Rightarrow> None
                                | Some l \<Rightarrow> X_UserIntent (Matrix env) (UserMXID l));
                  extra = (case login of None \<Rightarrow> []
                           | Some l \<Rightarrow> (if userIntent = None then [UserMXID l] else []));
                  (r, s2) = GetGhostByID env member s1
              in case r of
                   Inl err \<Rightarrow>
                     (Returns (Inl (Errorf (''failed to get ghost for '' @ member) err)), s2)
                 | Inr ghost \<Rightarrow>
                     (let s3 = UpdateInfoIfNecessary ghost source s2;
                          intent = (case userIntent of None \<Rightarrow> Intent ghost | Some i \<Rightarrow> i)
                      in planMembers env source loginsInPortal members
                           (expectedUserIDs @ extra @ [GetMXID intent])
                           (expectedExtraUsers @ extra)
                           (expectedIntents @ [intent]) s3)))"

text \<open>\<open>currentMembers\<close> is a Go map from user to member event; \<open>delete\<close> removes a key.\<close>

definition deleteKey :: "'k \<Rightarrow> ('k \<times> 'v) list \<Rightarrow> ('k \<times> 'v) list" where
  "deleteKey k m = filter (\<lambda>kv. fst kv \<noteq> k) m"

fun ensureIntentsJoined ::
  "env \<Rightarrow> MatrixAPI list \<Rightarrow> (id_UserID \<times> MemberEventContent) list \<Rightarrow> state
     \<Rightarrow> (id_UserID \<times> MemberEventContent) list \<times> state" where
  "ensureIntentsJoined env [] currentMembers s = (currentMembers, s)"
| "ensureIntentsJoined env (intent # expectedIntents) currentMembers s =
     (let mxid = GetMXID intent;
          memberEvt = map_of currentMembers mxid;
          joined = (case memberEvt of None \<Rightarrow> False | Some m \<Rightarrow> Membership m = MembershipJoin);
          s1 = (if joined then s
                else (let (err, s') = EnsureJoined env intent (MXID (portal s)) s
                      in logIfErr err ''Failed to ensure user is joined to room'' s'))
      in ensureIntentsJoined env expectedIntents (deleteKey mxid currentMembers) s1)"

fun inviteExtraUsers ::
  "env \<Rightarrow> id_UserID list \<Rightarrow> (id_UserID \<times> MemberEventContent) list \<Rightarrow> state
     \<Rightarrow> (id_UserID \<times> MemberEventContent) list \<times> state" where
  "inviteExtraUsers env [] currentMembers s = (currentMembers, s)"
| "inviteExtraUsers env (mxid # expectedExtraUsers) currentMembers s =
     (let memberEvt = map_of currentMembers mxid;
          present = (case memberEvt of None \<Rightarrow> False
                     | Some m \<Rightarrow> Membership m = MembershipJoin \<or> Membership m = MembershipInvite);
          s1 = (if present then s
                else (let (err, s') = InviteUser env (Bot env) (MXID (portal s)) mxid s
                      in logIfErr err ''Failed to invite user to room'' s'))
      in inviteExtraUsers env expectedExtraUsers (deleteKey mxid currentMembers) s1)"

text \<open>The loop that removes every remaining member who has not left and is not banned. The
  order in which Go ranges over the map is open; here it is the order of the list.\<close>

fun removeExtraMembers :: "env \<Rightarrow> (id_UserID \<times> MemberEventContent) list \<Rightarrow> state \<Rightarrow> state" where
  "removeExtraMembers env [] s = s"
| "removeExtraMembers env ((extraMember, memberEvt) # currentMembers) s =
     (if Membership memberEvt = MembershipLeave \<or> Membership memberEvt = MembershipBan then
        removeExtraMembers env currentMembers s
      else
        (let (err, s1) = SendState env (Bot env) (MXID (portal s)) StateMember extraMember
                           \<lparr>Parsed = MemberContent
                              \<lparr>Membership = MembershipLeave, mem_AvatarURL = mem_AvatarURL memberEvt,
                               mem_Displayname = mem_Displayname memberEvt,
                               mem_Reason = ''User is not in remote chat''\<rparr>,
                            Raw = None\<rparr>
                           (X_Now env (trace s)) s
         in removeExtraMembers env currentMembers
              (logIfErr err ''Failed to remove user from room'' s1)))"

text \<open>\<open>SyncParticipants\<close>. Without a room the plan is all it returns. The error of
  \<open>GetMembers\<close> is overwritten and never read; the map is then nil, which reads as empty.\<close>

definition SyncParticipants ::
  "env \<Rightarrow> networkid_UserID list \<Rightarrow> UserLogin \<Rightarrow> state
     \<Rightarrow> (error + id_UserID list) outcome \<times> state" where
  "SyncParticipants env members source s =
     (let (r, s1) = GetUserLoginsInPortal env (ID (portal s)) s
      in case r of
           Inl err \<Rightarrow> (Returns (Inl (Errorf ''failed to get user logins in portal'' err)), s1)
         | Inr loginsInPortal \<Rightarrow>
             (let (plan, s2) = planMembers env source loginsInPortal members [] [] [] s1
              in case plan of
                   Panics p \<Rightarrow> (Panics p, s2)
                 | Diverges \<Rightarrow> (Diverges, s2)
                 | Returns (Inl err) \<Rightarrow> (Returns (Inl err), s2)
                 | Returns (Inr (expectedUserIDs, expectedExtraUsers, expectedIntents)) \<Rightarrow>
                     if MXID (portal s2) = [] then (Returns (Inr expectedUserIDs), s2)
                     else
                       (let (got, s3) = GetMembers env (MXID (portal s2)) s2;
                            currentMembers = (case got of Inl err \<Rightarrow> [] | Inr ms \<Rightarrow> ms);
                            (currentMembers1, s4) = ensureIntentsJoined env expectedIntents
                                                      currentMembers s3;
                            (currentMembers2, s5) = inviteExtraUsers env expectedExtraUsers
                                                      currentMembers1 s4;
                            s6 = (if Relay (portal s5) = None
                                  then removeExtraMembers env currentMembers2 s5 else s5)
                        in (Returns (Inr expectedUserIDs), s6))))"

section \<open>Room creator\<close>

definition GetChatInfo :: "env \<Rightarrow> NetworkAPI \<Rightarrow> Portal \<Rightarrow> state \<Rightarrow> (error + PortalInfo) \<times> state" where
  "GetChatInfo env client p = ext (\<lambda>h. X_GetChatInfo (Network env) h client p) (C_GetChatInfo client p)"

definition CreateRoom :: "env \<Rightarrow> MatrixAPI \<Rightarrow> ReqCreateRoom \<Rightarrow> state \<Rightarrow> (error + id_RoomID) \<times> state" where
  "CreateRoom env intent req = ext (\<lambda>h. X_CreateRoom (Matrix env) h intent req) (C_CreateRoom intent req)"

text \<open>The request \<open>CreateMatrixRoom\<close> builds. \<open>isBeeper\<close> is the constant \<open>true\<close> of the source.\<close>

definition isBeeper :: bool where
  "isBeeper = True"

definition buildCreateRoom ::
  "env \<Rightarrow> Portal \<Rightarrow> id_RoomID option \<Rightarrow> bool \<Rightarrow> bool \<Rightarrow> id_UserID list \<Rightarrow> ReqCreateRoom" where
  "buildCreateRoom env p parentMXID isDirect isSpace initialMembers =
     \<lparr>Visibility = ''private'', req_Name = Name p, req_Topic = Topic p,
      CreationContent = (if isSpace then [(''type'', ARoomType ''m.space'')] else []),
      InitialState =
        [\<lparr>ise_StateKey = [], ise_Type = stateElementFunctionalMembers,
          ise_Content = \<lparr>Parsed = NoParsed,
                         Raw = Some [(''service_members'', AUserIDs [GetMXID (Bot env)])]\<rparr>\<rparr>]
        @ (if Topic p = [] then
             [\<lparr>ise_StateKey = [], ise_Type = StateTopic,
               ise_Content = \<lparr>Parsed = TopicEventContent [], Raw = None\<rparr>\<rparr>]
           else [])
        @ (if AvatarMXC p \<noteq> [] then
             [\<lparr>ise_StateKey = [], ise_Type = StateRoomAvatar,
               ise_Content = \<lparr>Parsed = RoomAvatarEventContent (AvatarMXC p), Raw = None\<rparr>\<rparr>]
           else [])
        @ (case parentMXID of
             None \<Rightarrow> []
           | Some mxid \<Rightarrow>
               [\<lparr>ise_StateKey = mxid, ise_Type = StateSpaceParent,
                 ise_Content = \<lparr>Parsed = SpaceParentEventContent [X_ServerName (Matrix env)] True,
                                Raw = None\<rparr>\<rparr>]),
      Preset = ''private_chat'', IsDirect = isDirect,
      PowerLevelOverride = [(GetMXID (Bot env), 9001)],
      BeeperLocalRoomID = ''!'' @ ID p @ '':'' @ X_ServerName (Matrix env),
      BeeperInitialMembers = initialMembers,
      BeeperAutoJoinInvites = isBeeper,
      Invite = (if isBeeper then initialMembers else [])\<rparr>"

text \<open>The end of \<open>CreateMatrixRoom\<close>, after \<open>CreateRoom\<close> returned the room id: the flags and the
  id are set, the portal is registered under the id, and only then is the row saved; when
  saving fails, the error is returned with the id in place.\<close>

definition roomCreated :: "env \<Rightarrow> PortalInfo \<Rightarrow> UserLogin \<Rightarrow> id_RoomID \<Rightarrow> state \<Rightarrow> error option outcome \<times> state" where
  "roomCreated env info source roomID s =
     (let s1 = Log InfoLevel ''Matrix room created'' s;
          s2 = s1\<lparr>portal := (portal s1)\<lparr>AvatarSet := True, TopicSet := True, NameSet := True,
                                          MXID := roomID\<rparr>,
                   portalsByMXID := (roomID, ID (portal s1)) # deleteKey roomID (portalsByMXID s1)\<rparr>;
          (err, s3) = PortalUpdate env (portal s2) s2
      in case err of
           Some e \<Rightarrow>
             (Returns (Some e),
              Log ErrorLevel ''Failed to save portal to database after creating Matrix room'' s3)
         | None \<Rightarrow>
             if \<not> isBeeper then
               (let (r, s4) = SyncParticipants env (Members info) source s3
                in case r of
                     Panics p \<Rightarrow> (Panics p, s4)
                   | Diverges \<Rightarrow> (Diverges, s4)
                   | Returns (Inl e) \<Rightarrow>
                       (Returns None,
                        Log ErrorLevel ''Failed to sync participants after room creation'' s4)
                   | Returns (Inr ids) \<Rightarrow> (Returns None, s4))
             else (Returns None, s3))"

text \<open>\<open>CreateMatrixRoom\<close>, under \<open>roomCreateLock\<close>. \<open>info.IsDirectChat\<close> and \<open>info.IsSpace\<close> are
  pointers read without a nil check while the request is built.\<close>

definition CreateMatrixRoom :: "env \<Rightarrow> UserLogin \<Rightarrow> state \<Rightarrow> error option outcome \<times> state" where
  "CreateMatrixRoom env source s =
     (if MXID (portal s) \<noteq> [] then (Returns None, s)
      else
        (let s1 = Log InfoLevel ''Creating Matrix room'' s
         in case Client source of
              None \<Rightarrow> (Panics nilDereference, s1)
            | Some client \<Rightarrow>
                (let (r, s2) = GetChatInfo env client (portal s1) s1
                 in case r of
                      Inl err \<Rightarrow>
                        (Returns (Some err),
                         Log ErrorLevel ''Failed to update portal info for creation'' s2)
                    | Inr info \<Rightarrow>
                        (let (updated, s3) = UpdateInfo env info None 0 s2
                         in case updated of
                              Panics p \<Rightarrow> (Panics p, s3)
                            | Diverges \<Rightarrow> (Diverges, s3)
                            | Returns u \<Rightarrow>
                                (let (synced, s4) = SyncParticipants env (Members info) source s3
                                 in case synced of
                                      Panics p \<Rightarrow> (Panics p, s4)
                                    | Diverges \<Rightarrow> (Diverges, s4)
                                    | Returns (Inl err) \<Rightarrow>
                                        (Returns (Some err),
                                         Log ErrorLevel
                                           ''Failed to process participant list for portal creation'' s4)
                                    | Returns (Inr initialMembers) \<Rightarrow>
                                        (case IsDirectChat info of
                                           None \<Rightarrow> (Panics nilDereference, s4)
                                         | Some isDirect \<Rightarrow>
                                             (case IsSpace info of
                                                None \<Rightarrow> (Panics nilDereference, s4)
                                              | Some isSpace \<Rightarrow>
                                                  (case (case Parent (portal s4) of
                                                           None \<Rightarrow> Some None
                                                         | Some pid \<Rightarrow>
                                                             map_option (\<lambda>q. Some (MXID q))
                                                               (parentPortal s4 pid)) of
                                                     None \<Rightarrow> (Panics nilDereference, s4)
                                                   | Some parentMXID \<Rightarrow>
                                                       (let req = buildCreateRoom env (portal s4)
                                                                    parentMXID isDirect isSpace
                                                                    initialMembers;
                                                            (created, s5) = CreateRoom env (Bot env) req s4
                                                        in case created of
                                                             Inl err \<Rightarrow>
                                                               (Returns (Some err),
                                                                Log ErrorLevel
                                                                  ''Failed to create Matrix room'' s5)
                                                           | Inr roomID \<Rightarrow>
                                                               roomCreated env info source roomID
                                                                 s5)))))))))"

section \<open>Dispatch of Matrix events\<close>

definition FindLoginsByPortalID ::
  "env \<Rightarrow> id_UserID \<Rightarrow> networkid_PortalID \<Rightarrow> state
     \<Rightarrow> (error + networkid_UserLoginID list) \<times> state" where
  "FindLoginsByPortalID env uid pid =
     ext (\<lambda>h. X_FindLoginsByPortalID (DB env) h uid pid) (C_FindLoginsByPortalID uid pid)"

definition GetMemberInfo ::
  "env \<Rightarrow> id_RoomID \<Rightarrow> id_UserID \<Rightarrow> state \<Rightarrow> (error + MemberEventContent option) \<times> state" where
  "GetMemberInfo env room uid =
     ext (\<lambda>h. X_GetMemberInfo (Matrix env) h room uid) (C_GetMemberInfo room uid)"

definition GetUserByMXID :: "env \<Rightarrow> id_UserID \<Rightarrow> state \<Rightarrow> (error + User) \<times> state" where
  "GetUserByMXID env uid = ext (\<lambda>h. X_GetUserByMXID env h uid) (C_GetUserByMXID uid)"

text \<open>The first loop of \<open>FindPreferredLogin\<close>: the first login id of the portal that the user
  has cached with a client.\<close>

fun firstUsableLogin ::
  "(networkid_UserLoginID \<times> UserLogin) list \<Rightarrow> networkid_UserLoginID list \<Rightarrow> UserLogin option" where
  "firstUsableLogin userLogins [] = None"
| "firstUsableLogin userLogins (loginID # loginIDs) =
     (case map_of userLogins loginID of
        Some login \<Rightarrow> (if Client login \<noteq> None then Some login
                       else firstUsableLogin userLogins loginIDs)
      | None \<Rightarrow> firstUsableLogin userLogins loginIDs)"

text \<open>\<open>FindPreferredLogin\<close> returns a login, or \<open>(nil, nil)\<close> when the portal has a relay, or
  \<open>ErrNotLoggedIn\<close>.\<close>

definition FindPreferredLogin :: "env \<Rightarrow> User \<Rightarrow> state \<Rightarrow> (error + UserLogin option) \<times> state" where
  "FindPreferredLogin env user s =
     (let (r, s1) = FindLoginsByPortalID env (user_MXID user) (ID (portal s)) s
      in case r of
           Inl err \<Rightarrow> (Inl err, s1)
         | Inr loginIDs \<Rightarrow>
             (case firstUsableLogin (logins user) loginIDs of
                Some login \<Rightarrow> (Inr (Some login), s1)
              | None \<Rightarrow>
                  if Relay (portal s1) \<noteq> None then (Inr None, s1)
                  else (case logins user of
                          [] \<Rightarrow> (Inl ErrNotLoggedIn, s1)
                        | (loginID, firstLogin) # others \<Rightarrow>
                            (Inr (Some firstLogin),
                             Log WarnLevel
                               ''No usable user portal rows found, returning random login'' s1))))"

text \<open>\<open>handleMatrixReceipts\<close>: for every read receipt the user is loaded (and nothing else is
  done yet); the first user that fails to load ends the whole function.\<close>

fun handleReadReceipts :: "env \<Rightarrow> (id_UserID \<times> Time) list \<Rightarrow> state \<Rightarrow> bool \<times> state" where
  "handleReadReceipts env [] s = (True, s)"
| "handleReadReceipts env ((userID, receipt) # readReceipts) s =
     (let (r, s1) = GetUserByMXID env userID s
      in case r of
           Inl err \<Rightarrow> (False, s1)
         | Inr sender \<Rightarrow> handleReadReceipts env readReceipts s1)"

fun handleReceiptEvents ::
  "env \<Rightarrow> (id_EventID \<times> (string \<times> (id_UserID \<times> Time) list) list) list \<Rightarrow> state \<Rightarrow> state" where
  "handleReceiptEvents env [] s = s"
| "handleReceiptEvents env ((evtID, receipts) # content) s =
     (case map_of receipts ''m.read'' of
        None \<Rightarrow> handleReceiptEvents env content s
      | Some readReceipts \<Rightarrow>
          (let (go_on, s1) = handleReadReceipts env readReceipts s
           in if go_on then handleReceiptEvents env content s1 else s1))"

definition handleMatrixReceipts :: "env \<Rightarrow> Event \<Rightarrow> state \<Rightarrow> state" where
  "handleMatrixReceipts env evt s =
     (case Parsed (evt_Content evt) of
        ReceiptEventContent content \<Rightarrow> handleReceiptEvents env content s
      | _ \<Rightarrow> s)"

text \<open>\<open>handleMatrixTyping\<close> sorts the typing users and keeps them; the difference to the
  previous users is computed and not used yet.\<close>

definition handleMatrixTyping :: "Event \<Rightarrow> state \<Rightarrow> state" where
  "handleMatrixTyping evt s =
     (case Parsed (evt_Content evt) of
        TypingEventContent userIDs \<Rightarrow> s\<lparr>portal := (portal s)\<lparr>currentlyTyping := sort userIDs\<rparr>\<rparr>
      | _ \<Rightarrow> s)"

definition handleMatrixEvent :: "env \<Rightarrow> User \<Rightarrow> Event \<Rightarrow> state \<Rightarrow> unit outcome \<times> state" where
  "handleMatrixEvent env sender evt s =
     (if evt_SourceEphemeral evt then
        (if evt_Type evt = EphemeralEventReceipt then (Returns (), handleMatrixReceipts env evt s)
         else if evt_Type evt = EphemeralEventTyping then (Returns (), handleMatrixTyping evt s)
         else (Returns (), s))
      else
        (let (r, s1) = FindPreferredLogin env sender s
         in case r of
              Inl err \<Rightarrow>
                (Returns (), Log ErrorLevel ''Failed to get user login to handle Matrix event'' s1)
            | Inr found \<Rightarrow>
                (let (login, origSender, s2) =
                       (case found of
                          Some l \<Rightarrow> (Some l, None, s1)
                        | None \<Rightarrow>
                            (let (info, s') = GetMemberInfo env (MXID (portal s1)) (user_MXID sender) s1
                             in case info of
                                  Inl err \<Rightarrow>
                                    (Relay (portal s1),
                                     Some \<lparr>os_User = sender, os_MemberEventContent = None\<rparr>,
                                     Log WarnLevel
                                       ''Failed to get member info for user being relayed'' s')
                                | Inr memberInfo \<Rightarrow>
                                    (Relay (portal s1),
                                     Some \<lparr>os_User = sender, os_MemberEventContent = memberInfo\<rparr>,
                                     s')))
                 in case login of
                      None \<Rightarrow> (Panics nilDereference, s2)
                    | Some login \<Rightarrow>
                        if evt_Type evt = EventMessage \<or> evt_Type evt = EventSticker then
                          handleMatrixMessage env login origSender evt s2
                        else if evt_Type evt = EventReaction then
                          (if origSender \<noteq> None then
                             (Returns (),
                              Log DebugLevel ''Ignoring reaction event from relayed user'' s2)
                           else handleMatrixReaction env login evt s2)
                        else if evt_Type evt = EventRedaction then
                          handleMatrixRedaction env login origSender evt s2
                        else (Returns (), s2))))"

section \<open>Dispatch of remote events\<close>

text \<open>The two loops of \<open>handleRemoteEdit\<close>. A modified part is sent as an edit of its event,
  and its row is updated whether or not sending worked; a deleted part is redacted, and
  its row is deleted whether or not redacting worked. \<open>SetEdit\<close> is a method of package
  \<open>event\<close>, which is not among the sources: what it makes of a content is the parameter
  \<open>X_SetEdit\<close>.\<close>

fun sendModifiedParts ::
  "env \<Rightarrow> MatrixAPI \<Rightarrow> Time \<Rightarrow> ConvertedEditPart list \<Rightarrow> state \<Rightarrow> state" where
  "sendModifiedParts env intent ts [] s = s"
| "sendModifiedParts env intent ts (part # modifiedParts) s =
     (let content = X_SetEdit env (msg_MXID (edit_Part part)) (edit_Content part);
          topLevelExtra = (case edit_Extra part of
                             None \<Rightarrow> edit_TopLevelExtra part
                           | Some extra \<Rightarrow>
                               map_set ''m.new_content'' (AMap extra) (edit_TopLevelExtra part));
          (r, s1) = SendMessage env intent (MXID (portal s)) (edit_Type part)
                      \<lparr>Parsed = MessageContent content, Raw = Some topLevelExtra\<rparr> ts s;
          s2 = (case r of Inl err \<Rightarrow> Log ErrorLevel ''Failed to edit message part'' s1
                | Inr eventID \<Rightarrow> s1);
          (err, s3) = MessageUpdate env (edit_Part part) s2
      in sendModifiedParts env intent ts modifiedParts
           (logIfErr err ''Failed to update message part in database'' s3))"

fun redactDeletedParts :: "env \<Rightarrow> MatrixAPI \<Rightarrow> Time \<Rightarrow> Message list \<Rightarrow> state \<Rightarrow> state" where
  "redactDeletedParts env intent ts [] s = s"
| "redactDeletedParts env intent ts (part # deletedParts) s =
     (let (r, s1) = SendMessage env intent (MXID (portal s)) EventRedaction
                      \<lparr>Parsed = RedactionEventContent (msg_MXID part), Raw = None\<rparr> ts s;
          s2 = (case r of
                  Inl err \<Rightarrow> Log ErrorLevel ''Failed to redact message part deleted in edit'' s1
                | Inr eventID \<Rightarrow> s1);
          (err, s3) = MessageDelete env (RowID part) s2
      in redactDeletedParts env intent ts deletedParts
           (logIfErr err ''Failed to delete message part from database'' s3))"

definition handleRemoteEdit :: "env \<Rightarrow> UserLogin \<Rightarrow> RemoteEvent \<Rightarrow> state \<Rightarrow> unit outcome \<times> state" where
  "handleRemoteEdit env source evt s =
     (let (r, s1) = GetAllPartsByID env (GetTargetMessage evt) s
      in case r of
           Inl err \<Rightarrow> (Returns (), Log ErrorLevel ''Failed to get edit target message'' s1)
         | Inr None \<Rightarrow> (Returns (), Log WarnLevel ''Edit target message not found'' s1)
         | Inr (Some existing) \<Rightarrow>
             (let (intent, s2) = getIntentFor env (GetSender evt) source s1
              in case intent of
                   None \<Rightarrow> (Returns (), s2)
                 | Some intent \<Rightarrow>
                     (let (conv, s3) = ConvertEdit env evt (portal s2) intent existing s2
                      in case conv of
                           Inl err \<Rightarrow> (Returns (), s3)
                         | Inr converted \<Rightarrow>
                             (Returns (),
                              redactDeletedParts env intent (edit_Timestamp converted)
                                (DeletedParts converted)
                                (sendModifiedParts env intent (edit_Timestamp converted)
                                   (ModifiedParts converted) s3)))))"

text \<open>The three handlers with an empty body.\<close>

definition handleRemoteReaction :: "env \<Rightarrow> UserLogin \<Rightarrow> RemoteEvent \<Rightarrow> state \<Rightarrow> unit outcome \<times> state" where
  "handleRemoteReaction env source evt s = (Returns (), s)"

definition handleRemoteReactionRemove ::
  "env \<Rightarrow> UserLogin \<Rightarrow> RemoteEvent \<Rightarrow> state \<Rightarrow> unit outcome \<times> state" where
  "handleRemoteReactionRemove env source evt s = (Returns (), s)"

definition handleRemoteMessageRemove ::
  "env \<Rightarrow> UserLogin \<Rightarrow> RemoteEvent \<Rightarrow> state \<Rightarrow> unit outcome \<times> state" where
  "handleRemoteMessageRemove env source evt s = (Returns (), s)"

text \<open>A type assertion \<open>evt.(RemoteMessage)\<close> on an event that does not implement the interface
  panics.\<close>

definition interfaceConversion :: string where
  "interfaceConversion = ''interface conversion: missing method''"

definition asserted ::
  "RemoteEventType \<Rightarrow> (env \<Rightarrow> UserLogin \<Rightarrow> RemoteEvent \<Rightarrow> state \<Rightarrow> unit outcome \<times> state)
     \<Rightarrow> env \<Rightarrow> UserLogin \<Rightarrow> RemoteEvent \<Rightarrow> state \<Rightarrow> unit outcome \<times> state" where
  "asserted ty handler env source evt s =
     (if ty \<in> set (implements evt) then handler env source evt s
      else (Panics interfaceConversion, s))"

text \<open>\<open>handleRemoteEvent\<close>: a portal without room is created first when the event asks for
  it; when it does not, or when creation returns an error, the event is not handled.\<close>

definition handleRemoteEvent :: "env \<Rightarrow> UserLogin \<Rightarrow> RemoteEvent \<Rightarrow> state \<Rightarrow> unit outcome \<times> state" where
  "handleRemoteEvent env source evt s =
     (let (ready, s1) =
            (if MXID (portal s) = [] then
               (if \<not> ShouldCreatePortal evt then (Returns False, s)
                else (let (r, s') = CreateMatrixRoom env source s
                      in case r of
                           Returns (Some err) \<Rightarrow>
                             (Returns False,
                              Log ErrorLevel ''Failed to create portal to handle event'' s')
                         | Returns None \<Rightarrow> (Returns True, s')
                         | Panics p \<Rightarrow> (Panics p, s')
                         | Diverges \<Rightarrow> (Diverges, s')))
             else (Returns True, s))
      in case ready of
           Panics p \<Rightarrow> (Panics p, s1)
         | Diverges \<Rightarrow> (Diverges, s1)
         | Returns False \<Rightarrow> (Returns (), s1)
         | Returns True \<Rightarrow>
             (case GetType evt of
                RemoteEventMessage \<Rightarrow> asserted RemoteEventMessage handleRemoteMessage env source evt s1
              | RemoteEventEdit \<Rightarrow> asserted RemoteEventEdit handleRemoteEdit env source evt s1
              | RemoteEventReaction \<Rightarrow>
                  asserted RemoteEventReaction handleRemoteReaction env source evt s1
              | RemoteEventReactionRemove \<Rightarrow>
                  asserted RemoteEventReactionRemove handleRemoteReactionRemove env source evt s1
              | RemoteEventMessageRemove \<Rightarrow>
                  asserted RemoteEventMessageRemove handleRemoteMessageRemove env source evt s1
              | RemoteEventUnknown \<Rightarrow> (Returns (), s1)))"

section \<open>Portal pump\<close>

datatype portalEvent =
    portalMatrixEvent Event User
  | portalRemoteEvent RemoteEvent UserLogin

text \<open>The body of the loop: the type switch on the queued event. Both cases call the handler
  directly; there is no \<open>recover\<close> around the call.\<close>

definition dispatchEvent :: "env \<Rightarrow> portalEvent \<Rightarrow> state \<Rightarrow> unit outcome \<times> state" where
  "dispatchEvent env rawEvt s =
     (case rawEvt of
        portalMatrixEvent evt sender \<Rightarrow> handleMatrixEvent env sender evt s
      | portalRemoteEvent evt source \<Rightarrow> handleRemoteEvent env source evt s)"

text \<open>\<open>eventLoop\<close> ranges over the channel: the list is what the channel delivers before it is
  closed. A handler that returns lets the loop take the next event; a handler that panics
  or does not return ends the loop there, as nothing in the loop catches it.\<close>

fun eventLoop :: "env \<Rightarrow> portalEvent list \<Rightarrow> state \<Rightarrow> unit outcome \<times> state" where
  "eventLoop env [] s = (Returns (), s)"
| "eventLoop env (rawEvt # events) s =
     (let (out, s1) = dispatchEvent env rawEvt s
      in case out of
           Returns u \<Rightarrow> eventLoop env events s1
         | Panics p \<Rightarrow> (Panics p, s1)
         | Diverges \<Rightarrow> (Diverges, s1))"

section \<open>Reading the trace\<close>

text \<open>The calls a run added to the trace.\<close>

definition newCalls :: "state \<Rightarrow> state \<Rightarrow> call list" where
  "newCalls s s' = drop (length (trace s)) (trace s')"

text \<open>Kinds of calls: a message sent to Matrix, anything sent to Matrix, a call of the
  network client, a write to the database.\<close>

definition isSendMessage :: "call \<Rightarrow> bool" where
  "isSendMessage c = (case c of C_SendMessage _ _ _ _ _ \<Rightarrow> True | _ \<Rightarrow> False)"

definition isMatrixSend :: "call \<Rightarrow> bool" where
  "isMatrixSend c = (case c of C_SendMessage _ _ _ _ _ \<Rightarrow> True | C_SendState _ _ _ _ _ _ \<Rightarrow> True
                      | C_CreateRoom _ _ \<Rightarrow> True | C_InviteUser _ _ _ \<Rightarrow> True
                      | C_EnsureJoined _ _ \<Rightarrow> True | _ \<Rightarrow> False)"

definition isClientCall :: "call \<Rightarrow> bool" where
  "isClientCall c = (case c of C_HandleMatrixMessage _ _ _ _ \<Rightarrow> True | C_HandleMatrixEdit _ _ _ \<Rightarrow> True
                      | C_HandleMatrixReaction _ _ _ \<Rightarrow> True | C_HandleMatrixMessageRemove _ _ _ \<Rightarrow> True
                      | C_HandleMatrixReactionRemove _ _ _ \<Rightarrow> True | C_GetChatInfo _ _ \<Rightarrow> True
                      | C_IsThisUser _ _ \<Rightarrow> True | _ \<Rightarrow> False)"

definition isDBWrite :: "call \<Rightarrow> bool" where
  "isDBWrite c = (case c of C_MessageInsert _ \<Rightarrow> True | C_MessageUpdate _ \<Rightarrow> True
                   | C_MessageDelete _ \<Rightarrow> True | C_ReactionUpsert _ \<Rightarrow> True
                   | C_PortalUpdate _ \<Rightarrow> True | _ \<Rightarrow> False)"

text \<open>The message rows handed to \<open>Message.Insert\<close>, in order.\<close>

fun insertedRows :: "call list \<Rightarrow> Message list" where
  "insertedRows [] = []"
| "insertedRows (C_MessageInsert m # cs) = m # insertedRows cs"
| "insertedRows (c # cs) = insertedRows cs"

text \<open>The id \<open>handleMatrixRedaction\<close> looks up, written as one choice: with \<open>evt.Redacts\<close>
  empty or equal to \<open>content.Redacts\<close> the source keeps \<open>content.Redacts\<close>, else it takes
  \<open>evt.Redacts\<close>.\<close>

definition redactionTarget :: "Event \<Rightarrow> id_EventID \<Rightarrow> id_EventID" where
  "redactionTarget evt contentRedacts = (if evt_Redacts evt \<noteq> [] then evt_Redacts evt else contentRedacts)"


text \<open>The intent \<open>sendRoomMeta\<close> and \<open>UpdateAvatar\<close> pick for a sender.\<close>

definition intentOf :: "env \<Rightarrow> Ghost option \<Rightarrow> Portal \<Rightarrow> MatrixAPI" where
  "intentOf env sender p = (case sender of None \<Rightarrow> Bot env | Some g \<Rightarrow> X_IntentFor (Matrix env) g p)"

text \<open>The target id as the specification words it: \<open>content.Redacts\<close>, with \<open>evt.Redacts\<close>
  as the fallback when \<open>content.Redacts\<close> is absent.\<close>

definition specRedactionTarget :: "Event \<Rightarrow> id_EventID \<Rightarrow> id_EventID" where
  "specRedactionTarget evt contentRedacts =
     (if contentRedacts \<noteq> [] then contentRedacts else evt_Redacts evt)"

text \<open>A later state of the same run: its trace starts with the trace of the earlier one.\<close>

definition extends :: "state \<Rightarrow> state \<Rightarrow> bool" where
  "extends s s' = (\<exists>new. trace s' = trace s @ new)"

section \<open>Example inputs\<close>

definition bot0 :: MatrixAPI where
  "bot0 = MatrixAPI ''@bot:example.org''"

definition portal0 :: Portal where
  "portal0 = \<lparr>BridgeID = ''bridge'', ID = ''chat1'', MXID = ''!room:example.org'', ParentID = [],
      Name = ''Chat'', Topic = ''About'', AvatarID = ''a0'', AvatarHash = replicate 32 7,
      AvatarMXC = ''mxc://example.org/old'', NameSet = True, TopicSet = True, AvatarSet = True,
      Parent = None, Relay = None, currentlyTyping = []\<rparr>"

definition state0 :: state where
  "state0 = \<lparr>portal = portal0, portalsByID = [], portalsByMXID = [(''!room:example.org'', ''chat1'')],
          trace = []\<rparr>"

definition login0 :: UserLogin where
  "login0 = \<lparr>login_ID = ''login1'', UserMXID = ''@user:example.org'', Client = Some (NetworkAPI 1)\<rparr>"

definition ghost0 :: Ghost where
  "ghost0 = \<lparr>ghost_ID = ''alice'', Intent = MatrixAPI ''@ghost_alice:example.org''\<rparr>"

definition row_of :: "int \<Rightarrow> networkid_MessageID \<Rightarrow> id_EventID \<Rightarrow> Message" where
  "row_of n mid mxid = \<lparr>RowID = n, msg_ID = mid, msg_PartID = [], msg_MXID = mxid, msg_RoomID = ''chat1'',
      msg_SenderID = ''alice'', msg_Timestamp = 0, RelatesToRowID = 0,
      Metadata = [(''sender_mxid'', AString ''@ghost_alice:example.org'')]\<rparr>"

definition matrix0 :: MatrixConnector where
  "matrix0 = \<lparr>X_IntentFor = (\<lambda>g p. Intent g), X_UserIntent = (\<lambda>u. None),
      X_ServerName = ''example.org'',
      X_SendState = (\<lambda>h i r ty k c ts. None),
      X_SendMessage = (\<lambda>h i r ty c ts. Inr ''$sent''),
      X_CreateRoom = (\<lambda>h i req. Inr ''!new:example.org''),
      X_GetMembers = (\<lambda>h r. Inr []),
      X_GetMemberInfo = (\<lambda>h r u. Inr None),
      X_InviteUser = (\<lambda>h i r u. None),
      X_EnsureJoined = (\<lambda>h i r. None)\<rparr>"

definition network0 :: NetworkConnector where
  "network0 = \<lparr>X_HandleMatrixMessage = (\<lambda>h c b t r. Inl (Err ''not supported'')),
      X_HandleMatrixEdit = (\<lambda>h c b m. Inr m),
      X_HandleMatrixReaction = (\<lambda>h c b m. Inr None),
      X_HandleMatrixMessageRemove = (\<lambda>h c b m. None),
      X_HandleMatrixReactionRemove = (\<lambda>h c b r. None),
      X_GetChatInfo = (\<lambda>h c p. Inl (Err ''not supported'')),
      X_IsThisUser = (\<lambda>h c u. False),
      X_ConvertMessage = (\<lambda>h e p i. Inl (Err ''not supported'')),
      X_ConvertEdit = (\<lambda>h e p i ms. Inl (Err ''not supported'')),
      X_Reupload = (\<lambda>h a i cur. Inr (''mxc://example.org/new'', replicate 32 1))\<rparr>"

text \<open>A store that holds the message row 1, bridged as event \<open>$m1\<close> from remote message \<open>r1\<close>,
  and the older row 5 of \<open>r0\<close>.\<close>

definition db0 :: Database where
  "db0 = \<lparr>X_GetPartByMXID = (\<lambda>h mxid. if mxid = ''$m1'' then Inr (Some (row_of 1 ''r1'' ''$m1'')) else Inr None),
      X_GetFirstPartByID = (\<lambda>h mid. if mid = ''r1'' then Inr (Some (row_of 1 ''r1'' ''$m1'')) else Inr None),
      X_GetFirstOrSpecificPartByID = (\<lambda>h mid.
         if mop_MessageID mid = ''r1'' then Inr (Some (row_of 1 ''r1'' ''$m1''))
         else if mop_MessageID mid = ''r0'' then Inr (Some (row_of 5 ''r0'' ''$m0''))
         else Inr None),
      X_GetAllPartsByID = (\<lambda>h mid. Inr None),
      X_MessageInsert = (\<lambda>h m. None),
      X_MessageUpdate = (\<lambda>h m. None),
      X_MessageDelete = (\<lambda>h n. None),
      X_ReactionGetByMXID = (\<lambda>h mxid. Inr None),
      X_ReactionUpsert = (\<lambda>h r. None),
      X_PortalUpdate = (\<lambda>h p. None),
      X_FindLoginsByPortalID = (\<lambda>h u p. Inr [])\<rparr>"

definition env0 :: env where
  "env0 = \<lparr>Bot = bot0, Matrix = matrix0, Network = network0, DB = db0,
      X_GetGhostByID = (\<lambda>h u. Inr \<lparr>ghost_ID = u, Intent = MatrixAPI (''@ghost_'' @ u @ '':example.org'')\<rparr>),
      X_GetUserByMXID = (\<lambda>h u. Inr \<lparr>user_MXID = u, logins = []\<rparr>),
      X_GetUserLoginsInPortal = (\<lambda>h p. Inr []),
      X_GetCachedUserLoginByID = (\<lambda>l. None),
      X_Now = (\<lambda>h. 1000 + int (length h)),
      X_SetEdit = (\<lambda>original c.
         MessageEventContent (''* '' @ Body c) (noRelation\<lparr>GetReplaceID := original\<rparr>)
           (Some c) (Mentions c))\<rparr>"

text \<open>The ghost is not allowed to send state; the bot is.\<close>

definition env_forbidden :: env where
  "env_forbidden = env0\<lparr>Matrix := matrix0\<lparr>X_SendState :=
      (\<lambda>h i r ty k c ts. if i = bot0 then None else Some MForbidden)\<rparr>\<rparr>"

definition redaction_m1 :: Event where
  "redaction_m1 = \<lparr>evt_ID = ''$redact1'', evt_Type = EventRedaction, evt_Sender = ''@user:example.org'',
      evt_Redacts = ''$m1'', evt_Content = \<lparr>Parsed = RedactionEventContent ''$m1'', Raw = None\<rparr>,
      evt_SourceEphemeral = False\<rparr>"

text \<open>A redaction whose content names the stored \<open>$m1\<close> and whose top level names \<open>$other\<close>.\<close>

definition redaction_both :: Event where
  "redaction_both = redaction_m1\<lparr>evt_Redacts := ''$other''\<rparr>"

definition edit_content :: "id_EventID \<Rightarrow> MessageEventContent" where
  "edit_content target = MessageEventContent ''* new text'' (noRelation\<lparr>GetReplaceID := target\<rparr>)
      (Some (MessageEventContent ''new text'' noRelation None None)) None"

definition edit_of :: "id_EventID \<Rightarrow> Event" where
  "edit_of target = \<lparr>evt_ID = ''$edit1'', evt_Type = EventMessage, evt_Sender = ''@user:example.org'',
      evt_Redacts = [], evt_Content = \<lparr>Parsed = MessageContent (edit_content target), Raw = None\<rparr>,
      evt_SourceEphemeral = False\<rparr>"

definition remote_r1 :: RemoteEvent where
  "remote_r1 = \<lparr>GetType = RemoteEventMessage, GetID = ''r1'',
      GetSender = \<lparr>IsFromMe = False, SenderLogin = [], Sender = ''alice''\<rparr>,
      GetTargetMessage = [], ShouldCreatePortal = True, implements = [RemoteEventMessage]\<rparr>"

definition remote_r2 :: RemoteEvent where
  "remote_r2 = remote_r1\<lparr>GetID := ''r2''\<rparr>"

definition part_text :: ConvertedMessagePart where
  "part_text = \<lparr>part_ID = [], part_Type = EventMessage,
      part_Content = MessageEventContent ''hi'' noRelation None None, part_Extra = None,
      part_DBMetadata = []\<rparr>"

definition conv_plain :: ConvertedMessage where
  "conv_plain = \<lparr>ReplyTo = None, ThreadRoot = None, Parts = [part_text], Timestamp = 100\<rparr>"

text \<open>A message that replies to \<open>r1\<close> inside the thread started by \<open>r0\<close>.\<close>

definition conv_thread :: ConvertedMessage where
  "conv_thread = conv_plain\<lparr>ReplyTo := Some \<lparr>mop_MessageID = ''r1'', mop_PartID = None\<rparr>,
      ThreadRoot := Some \<lparr>mop_MessageID = ''r0'', mop_PartID = None\<rparr>\<rparr>"

definition env_convert :: "ConvertedMessage \<Rightarrow> env" where
  "env_convert conv = env0\<lparr>env.Network := network0\<lparr>X_ConvertMessage := (\<lambda>h e p i. Inr conv)\<rparr>\<rparr>"

text \<open>The duplicate check fails: the database does not answer it.\<close>

definition env_dberr :: env where
  "env_dberr = (env_convert conv_plain)\<lparr>DB := db0\<lparr>X_GetFirstPartByID :=
      (\<lambda>h mid. Inl (Err ''database is locked''))\<rparr>\<rparr>"

definition avatar1 :: Avatar where
  "avatar1 = \<lparr>avatar_ID = ''a1'', Remove = False\<rparr>"

text \<open>A portal that has no room yet, and the chat info the network returns for it.\<close>

definition state_new :: state where
  "state_new = \<lparr>portal = portal0\<lparr>MXID := []\<rparr>, portalsByID = [], portalsByMXID = [], trace = []\<rparr>"

definition info0 :: PortalInfo where
  "info0 = \<lparr>info_Name = Some ''Chat'', info_Topic = None, info_Avatar = None, Members = [''alice''],
      IsDirectChat = Some False, IsSpace = Some False\<rparr>"

definition env_create :: env where
  "env_create = env0\<lparr>env.Network := network0\<lparr>X_GetChatInfo := (\<lambda>h c p. Inr info0)\<rparr>\<rparr>"

text \<open>The homeserver creates the room; saving the portal row afterwards fails.\<close>

definition env_save_fails :: env where
  "env_save_fails = env_create\<lparr>DB := db0\<lparr>X_PortalUpdate := (\<lambda>h p. Some (Err ''disk full''))\<rparr>\<rparr>"

text \<open>The homeserver refuses to create the room.\<close>

definition env_create_fails :: env where
  "env_create_fails = env_create\<lparr>Matrix := matrix0\<lparr>X_CreateRoom :=
      (\<lambda>h i req. Inl (Err ''M_LIMIT_EXCEEDED''))\<rparr>\<rparr>"

text \<open>A reply to the remote message \<open>r9\<close>, which was never bridged.\<close>

definition conv_reply_unknown :: ConvertedMessage where
  "conv_reply_unknown = conv_plain\<lparr>ReplyTo := Some \<lparr>mop_MessageID = ''r9'', mop_PartID = None\<rparr>\<rparr>"

definition remote_r3 :: RemoteEvent where
  "remote_r3 = remote_r1\<lparr>GetID := ''r3''\<rparr>"

definition env_pump :: env where
  "env_pump = env0\<lparr>env.Network := network0\<lparr>X_ConvertMessage :=
      (\<lambda>h e p i. if GetID e = ''r3'' then Inr conv_reply_unknown else Inr conv_plain)\<rparr>\<rparr>"

section \<open>Properties\<close>


lemmas ext_defs = ext_def emit_def Log_def logIfErr_def

lemmas ex_defs = state0_def portal0_def bot0_def login0_def ghost0_def row_of_def matrix0_def network0_def db0_def env0_def
  env_forbidden_def redaction_m1_def redaction_both_def edit_content_def edit_of_def remote_r1_def avatar1_def
  remote_r2_def part_text_def conv_plain_def conv_thread_def env_convert_def env_dberr_def
  noRelation_def

lemmas ex2_defs = state_new_def info0_def env_create_def env_save_fails_def env_create_fails_def
  conv_reply_unknown_def remote_r3_def env_pump_def

subsection \<open>Traces of the loops and helpers\<close>


lemma insertedRows_append: "insertedRows (xs @ ys) = insertedRows xs @ insertedRows ys"
  by (induction xs rule: insertedRows.induct) simp_all

lemma newCalls_append: "trace s' = trace s @ new \<Longrightarrow> newCalls s s' = new"
  by (simp add: newCalls_def)

lemma trace_logIfErr:
  "trace (logIfErr err msg s) = trace s @ (case err of None \<Rightarrow> [] | Some e \<Rightarrow> [C_Log ErrorLevel msg])"
  by (simp add: ext_defs split: option.splits)

lemma parts_trace:
  "\<exists>new. trace (handleRemoteMessage_parts env intent evt ts rid replyTo threadRoot prev parts s)
            = trace s @ new
        \<and> list_all (\<lambda>m. RelatesToRowID m = rid) (insertedRows new)
        \<and> length (filter isSendMessage new) = length parts"
proof (induction parts arbitrary: s prev)
  case Nil
  then show ?case by simp
next
  case (Cons part parts)
  let ?loop = "handleRemoteMessage_parts env intent evt ts rid replyTo threadRoot"
  let ?content = "\<lparr>Parsed = MessageContent (relateContent replyTo threadRoot prev (part_Content part)),
                   Raw = part_Extra part\<rparr>"
  let ?c = "C_SendMessage intent (MXID (portal s)) (part_Type part) ?content ts"
  show ?case
  proof (cases "X_SendMessage (Matrix env) (trace s) intent (MXID (portal s)) (part_Type part) ?content ts")
    case (Inl err)
    let ?s1 = "Log ErrorLevel ''Failed to send message part to Matrix'' (emit ?c s)"
    let ?pre = "[?c, C_Log ErrorLevel ''Failed to send message part to Matrix'']"
    from Cons.IH [of prev ?s1] obtain new where
      n: "trace (?loop prev parts ?s1) = trace ?s1 @ new"
         "list_all (\<lambda>m. RelatesToRowID m = rid) (insertedRows new)"
         "length (filter isSendMessage new) = length parts"
      by blast
    have "?loop prev (part # parts) s = ?loop prev parts ?s1"
      using Inl by (simp add: SendMessage_def ext_def)
    moreover have "trace ?s1 = trace s @ ?pre"
      by (simp add: ext_defs)
    ultimately have "trace (?loop prev (part # parts) s) = trace s @ (?pre @ new)"
      using n(1) by simp
    moreover have "list_all (\<lambda>m. RelatesToRowID m = rid) (insertedRows (?pre @ new))"
      using n(2) by simp
    moreover have "length (filter isSendMessage (?pre @ new)) = length (part # parts)"
      using n(3) by (simp add: isSendMessage_def)
    ultimately show ?thesis by blast
  next
    case (Inr eventID)
    let ?m = "\<lparr>RowID = 0, msg_ID = GetID evt, msg_PartID = part_ID part,
                    msg_MXID = eventID, msg_RoomID = ID (portal s),
                    msg_SenderID = Sender (GetSender evt), msg_Timestamp = ts,
                    RelatesToRowID = rid,
                    Metadata = map_set ''sender_mxid'' (AUserID (GetMXID intent))
                                 (part_DBMetadata part)\<rparr>"
    let ?err = "X_MessageInsert (DB env) (trace s @ [?c]) ?m"
    let ?s1 = "logIfErr ?err ''Failed to save message part to database'' (emit (C_MessageInsert ?m) (emit ?c s))"
    let ?prev = "case prev of None \<Rightarrow> None | Some p \<Rightarrow> Some ?m"
    let ?pre = "[?c, C_MessageInsert ?m] @ (case ?err of None \<Rightarrow> []
                  | Some e \<Rightarrow> [C_Log ErrorLevel ''Failed to save message part to database''])"
    from Cons.IH [of ?prev ?s1] obtain new where
      n: "trace (?loop ?prev parts ?s1) = trace ?s1 @ new"
         "list_all (\<lambda>m. RelatesToRowID m = rid) (insertedRows new)"
         "length (filter isSendMessage new) = length parts"
      by blast
    have "?loop prev (part # parts) s = ?loop ?prev parts ?s1"
      using Inr by (simp add: SendMessage_def MessageInsert_def ext_def emit_def Let_def)
    moreover have "trace ?s1 = trace s @ ?pre"
      by (simp add: trace_logIfErr emit_def)
    ultimately have "trace (?loop prev (part # parts) s) = trace s @ (?pre @ new)"
      using n(1) by simp
    moreover have "list_all (\<lambda>m. RelatesToRowID m = rid) (insertedRows (?pre @ new))"
      using n(2) by (simp add: insertedRows_append split: option.splits)
    moreover have "length (filter isSendMessage (?pre @ new)) = length (part # parts)"
      using n(3) by (simp add: isSendMessage_def split: option.splits)
    ultimately show ?thesis by blast
  qed
qed

lemma getIntentFor_trace:
  assumes "getIntentFor env sender source s = (intent, s')"
  shows "\<exists>new. trace s' = trace s @ new \<and> insertedRows new = [] \<and> filter isSendMessage new = []"
  using assms
  by (auto simp: getIntentFor_def GetGhostByID_def UpdateInfoIfNecessary_def ext_defs Let_def isSendMessage_def
      split: if_splits option.splits sum.splits prod.splits)

lemma lookupRelation_trace:
  assumes "lookupRelation env ref msg rid s = (out, s')"
  shows "\<exists>new. trace s' = trace s @ new \<and> insertedRows new = [] \<and> filter isSendMessage new = []"
  using assms
  by (auto simp: lookupRelation_def GetFirstOrSpecificPartByID_def ext_defs Let_def isSendMessage_def
      split: if_splits option.splits sum.splits prod.splits)

subsection \<open>Room metadata\<close>


text \<open>Claim C1. A state event sent through \<open>sendRoomMeta\<close> for a ghost whose \<open>SendState\<close> fails
  with \<open>M_FORBIDDEN\<close> is retried once by the bot with the content annotated
  \<open>fi.mau.bridge.set_by\<close>; the claim says the retry keeps the event type and the state key.
  The code run on a topic event: the ghost's attempt has type \<open>StateTopic\<close>, the bot's retry
  carries the topic content under the type \<open>StateRoomName\<close>, which the source writes as a
  constant in the retry.\<close>

theorem sendRoomMeta_forbidden_retry_as_room_name:
  "sendRoomMeta env_forbidden (Some ghost0) 7 StateTopic [] (TopicEventContent ''hello'') state0
   = (True, state0\<lparr>trace :=
       [C_SendState (MatrixAPI ''@ghost_alice:example.org'') ''!room:example.org'' StateTopic []
          \<lparr>Parsed = TopicEventContent ''hello'', Raw = None\<rparr> 7,
        C_SendState (MatrixAPI ''@bot:example.org'') ''!room:example.org'' StateRoomName []
          \<lparr>Parsed = TopicEventContent ''hello'',
           Raw = Some [(''fi.mau.bridge.set_by'', AUserID ''@ghost_alice:example.org'')]\<rparr> 7]\<rparr>)"
  by (simp add: sendRoomMeta_def SendState_def ext_defs ex_defs errors_Is_def)

text \<open>What \<open>UpdateAvatar\<close> does on every path that does not enter the forbidden fallback of
  \<open>sendRoomMeta\<close>, for a portal with a room and an avatar that is not a removal and is not
  skipped by the first guard, when \<open>Reupload\<close> succeeds. With the returned hash equal to
  the stored one the re-upload is the only call and \<open>AvatarSet\<close> keeps its value. With a
  different hash one state event of type \<open>m.room.avatar\<close> with the new URL is sent through
  the sender's intent, nothing else is sent, and \<open>AvatarSet\<close> says whether it was accepted.\<close>

lemma UpdateAvatar_without_fallback:
  assumes "MXID (portal s) \<noteq> []" and "\<not> Remove avatar"
    and "\<not> (AvatarID (portal s) = avatar_ID avatar \<and> AvatarSet (portal s))"
    and "intent = intentOf env sender ((portal s)\<lparr>AvatarID := avatar_ID avatar\<rparr>)"
    and "X_Reupload (Network env) (trace s) avatar intent (AvatarHash (portal s)) = Inr (mxc, h)"
    and "sending = intentOf env sender
           ((portal s)\<lparr>AvatarID := avatar_ID avatar, AvatarMXC := mxc, AvatarHash := h\<rparr>)"
    and "answer = X_SendState (Matrix env)
           (trace s @ [C_Reupload avatar intent (AvatarHash (portal s))]) sending (MXID (portal s))
           StateRoomAvatar [] \<lparr>Parsed = RoomAvatarEventContent mxc, Raw = None\<rparr> ts"
    and "\<not> (errors_Is answer MForbidden \<and> sending \<noteq> Bot env)"
    and "UpdateAvatar env avatar sender ts s = (r, s')"
  shows "if h = AvatarHash (portal s)
         then newCalls s s' = [C_Reupload avatar intent (AvatarHash (portal s))]
            \<and> AvatarSet (portal s') = AvatarSet (portal s)
         else newCalls s s' =
                [C_Reupload avatar intent (AvatarHash (portal s)),
                 C_SendState sending (MXID (portal s)) StateRoomAvatar []
                   \<lparr>Parsed = RoomAvatarEventContent mxc, Raw = None\<rparr> ts]
                @ (case answer of None \<Rightarrow> []
                   | Some e \<Rightarrow> [C_Log ErrorLevel ''Failed to set room metadata''])
            \<and> AvatarSet (portal s') = (answer = None)"
  using assms
  by (auto simp: UpdateAvatar_def sendAvatarMeta_def sendRoomMeta_def Reupload_def SendState_def
        ext_defs Let_def intentOf_def newCalls_def
      split: if_splits option.splits prod.splits sum.splits)


subsection \<open>Matrix redactions and edits\<close>


lemma handleMatrixRedaction_no_db_write:
  assumes "handleMatrixRedaction env sender origSender evt s = (out, s')"
  shows "filter isDBWrite (newCalls s s') = []"
  using assms
  by (auto simp add: handleMatrixRedaction_def GetPartByMXID_def ReactionGetByMXID_def
        HandleMatrixMessageRemove_def HandleMatrixReactionRemove_def ext_defs newCalls_def isDBWrite_def Let_def
      split: Parsed.splits sum.splits option.splits prod.splits)

text \<open>Claim C2. A redaction whose target is a stored message and whose
  \<open>HandleMatrixMessageRemove\<close> succeeds should delete the message row. The code run on such a
  redaction: the two lookups and the removal on the network are all it does; no
  \<open>Message.Delete\<close> follows.\<close>

theorem handleMatrixRedaction_leaves_row:
  "X_GetPartByMXID (DB env0) [] ''$m1'' = Inr (Some (row_of 1 ''r1'' ''$m1'')) \<and>
   handleMatrixRedaction env0 login0 None redaction_m1 state0 =
     (Returns (), state0\<lparr>trace :=
        [C_GetPartByMXID ''$m1'', C_ReactionGetByMXID ''$m1'',
         C_HandleMatrixMessageRemove (NetworkAPI 1)
           \<lparr>base_Event = redaction_m1, base_Content = ''$m1'', base_Portal = portal0,
            base_OrigSender = None\<rparr> (row_of 1 ''r1'' ''$m1'')]\<rparr>)"
  by (simp add: handleMatrixRedaction_def GetPartByMXID_def ReactionGetByMXID_def
        HandleMatrixMessageRemove_def ext_defs ex_defs Let_def)

text \<open>Claim C5, as stated, fails. The redaction carries \<open>content.Redacts = $m1\<close>, a stored
  message, and \<open>evt.Redacts = $other\<close>. By the claim the target is \<open>$m1\<close> and
  \<open>HandleMatrixMessageRemove\<close> is called; the code looks \<open>$other\<close> up in both tables, finds
  nothing, and drops the event.\<close>

theorem handleMatrixRedaction_content_redacts_counterexample:
  "specRedactionTarget redaction_both ''$m1'' = ''$m1'' \<and>
   X_GetPartByMXID (DB env0) [] ''$m1'' = Inr (Some (row_of 1 ''r1'' ''$m1'')) \<and>
   handleMatrixRedaction env0 login0 None redaction_both state0 =
     (Returns (), state0\<lparr>trace :=
        [C_GetPartByMXID ''$other'', C_ReactionGetByMXID ''$other'',
         C_Log DebugLevel ''Redaction target message not found in database'']\<rparr>)"
  by (simp add: handleMatrixRedaction_def GetPartByMXID_def ReactionGetByMXID_def specRedactionTarget_def
        HandleMatrixMessageRemove_def ext_defs ex_defs Let_def)

text \<open>Claim C5, amended. The target id is \<open>evt.Redacts\<close> when that is not empty, else
  \<open>content.Redacts\<close>. When both lookups of that id succeed (and the login has a client):
  a stored message gets \<open>HandleMatrixMessageRemove\<close>; else a stored reaction gets
  \<open>HandleMatrixReactionRemove\<close>; else no call of the network client is made and the event
  is dropped with a debug log.\<close>

theorem handleMatrixRedaction_dispatch:
  assumes "Parsed (evt_Content evt) = RedactionEventContent contentRedacts"
    and "target = redactionTarget evt contentRedacts"
    and "X_GetPartByMXID (DB env) (trace s) target = Inr msg"
    and "X_ReactionGetByMXID (DB env) (trace s @ [C_GetPartByMXID target]) target = Inr reaction"
    and "Client sender = Some client"
    and "base = \<lparr>base_Event = evt\<lparr>evt_Content := (evt_Content evt)\<lparr>Parsed := RedactionEventContent target\<rparr>\<rparr>,
                 base_Content = target, base_Portal = portal s, base_OrigSender = origSender\<rparr>"
    and "handleMatrixRedaction env sender origSender evt s = (out, s')"
  shows "out = Returns () \<and> take 2 (newCalls s s') = [C_GetPartByMXID target, C_ReactionGetByMXID target] \<and>
         filter isClientCall (newCalls s s') =
           (case msg of Some m \<Rightarrow> [C_HandleMatrixMessageRemove client base m]
            | None \<Rightarrow> (case reaction of Some r \<Rightarrow> [C_HandleMatrixReactionRemove client base r]
                        | None \<Rightarrow> [])) \<and>
         (if msg = None \<and> reaction = None
          then drop 2 (newCalls s s') = [C_Log DebugLevel ''Redaction target message not found in database'']
          else True)"
  using assms
  by (auto simp add: handleMatrixRedaction_def GetPartByMXID_def ReactionGetByMXID_def redactionTarget_def
        HandleMatrixMessageRemove_def HandleMatrixReactionRemove_def ext_defs newCalls_def isClientCall_def Let_def
      split: Parsed.splits sum.splits option.splits prod.splits if_splits)

text \<open>Witness for C5: the redaction of the stored message \<open>$m1\<close>.\<close>

theorem handleMatrixRedaction_dispatch_witness:
  "Parsed (evt_Content redaction_m1) = RedactionEventContent ''$m1'' \<and>
   Client login0 = Some (NetworkAPI 1) \<and>
   (\<exists>s'. handleMatrixRedaction env0 login0 None redaction_m1 state0 = (Returns (), s') \<and>
     filter isClientCall (newCalls state0 s') =
       [C_HandleMatrixMessageRemove (NetworkAPI 1)
          \<lparr>base_Event = redaction_m1, base_Content = ''$m1'', base_Portal = portal0,
           base_OrigSender = None\<rparr> (row_of 1 ''r1'' ''$m1'')])"
proof -
  obtain out s' where run: "handleMatrixRedaction env0 login0 None redaction_m1 state0 = (out, s')"
    by (cases "handleMatrixRedaction env0 login0 None redaction_m1 state0")
  have h1: "Parsed (evt_Content redaction_m1) = RedactionEventContent ''$m1''"
    by (simp add: ex_defs)
  have h2: "''$m1'' = redactionTarget redaction_m1 ''$m1''"
    by (simp add: redactionTarget_def ex_defs)
  have h3: "X_GetPartByMXID (DB env0) (trace state0) ''$m1'' = Inr (Some (row_of 1 ''r1'' ''$m1''))"
    by (simp add: ex_defs)
  have h4: "X_ReactionGetByMXID (DB env0) (trace state0 @ [C_GetPartByMXID ''$m1'']) ''$m1'' = Inr None"
    by (simp add: ex_defs)
  have h5: "Client login0 = Some (NetworkAPI 1)"
    by (simp add: ex_defs)
  from handleMatrixRedaction_dispatch [OF h1 h2 h3 h4 h5 refl run] run h1 h5 show ?thesis
    by (simp add: ex_defs)
qed

text \<open>Claim C6. A Matrix message whose content has a non-empty \<open>ReplaceID\<close> never inserts a
  message row. When the target is in the store and \<open>HandleMatrixEdit\<close> succeeds, the one
  database write is the update of the target row (as the client left it); when
  \<open>HandleMatrixEdit\<close> fails nothing is written. When the target is absent the run is the
  lookup and a warning: no call of the network client, no database write.\<close>

theorem handleMatrixMessage_edit_updates_target:
  assumes "Parsed (evt_Content evt) = MessageContent content"
    and "GetReplaceID (RelatesTo content) \<noteq> []"
    and "X_GetPartByMXID (DB env) (trace s) (GetReplaceID (RelatesTo content)) = Inr target"
    and "handleMatrixMessage env sender origSender evt s = (out, s')"
  shows "insertedRows (newCalls s s') = [] \<and>
         (case target of
            None \<Rightarrow> out = Returns () \<and>
                     newCalls s s' = [C_GetPartByMXID (GetReplaceID (RelatesTo content)),
                                      C_Log WarnLevel ''Edit target message not found in database'']
          | Some row \<Rightarrow>
              (case Client sender of None \<Rightarrow> out = Panics nilDereference 
               | Some client \<Rightarrow>
                  (case X_HandleMatrixEdit (Network env) (trace s @ [C_GetPartByMXID (GetReplaceID (RelatesTo content))]) client
                          \<lparr>base_Event = evt, base_Content = (case NewContent content of Some c \<Rightarrow> c | None \<Rightarrow> content),
                           base_Portal = portal s, base_OrigSender = origSender\<rparr> row of
                     Inl err \<Rightarrow> filter isDBWrite (newCalls s s') = []
                   | Inr edited \<Rightarrow> filter isDBWrite (newCalls s s') = [C_MessageUpdate edited])))"
  using assms
  by (auto simp add: handleMatrixMessage_def handleMatrixEdit_def GetPartByMXID_def 
        HandleMatrixEdit_def MessageUpdate_def ext_defs newCalls_def isDBWrite_def Let_def
      split: Parsed.splits sum.splits option.splits prod.splits if_splits)

text \<open>Witness for C6: an edit of the stored \<open>$m1\<close>, and an edit of \<open>$missing\<close>.\<close>

theorem handleMatrixMessage_edit_updates_target_witness:
  "(\<exists>s'. handleMatrixMessage env0 login0 None (edit_of ''$m1'') state0 = (Returns (), s') \<and>
      insertedRows (newCalls state0 s') = [] \<and>
      filter isDBWrite (newCalls state0 s') = [C_MessageUpdate (row_of 1 ''r1'' ''$m1'')]) \<and>
   handleMatrixMessage env0 login0 None (edit_of ''$missing'') state0 =
     (Returns (), state0\<lparr>trace := [C_GetPartByMXID ''$missing'',
         C_Log WarnLevel ''Edit target message not found in database'']\<rparr>)"
proof -
  obtain out s' where run: "handleMatrixMessage env0 login0 None (edit_of ''$m1'') state0 = (out, s')"
    by (cases "handleMatrixMessage env0 login0 None (edit_of ''$m1'') state0")
  have h1: "Parsed (evt_Content (edit_of ''$m1'')) = MessageContent (edit_content ''$m1'')"
    by (simp add: ex_defs)
  have h2: "GetReplaceID (RelatesTo (edit_content ''$m1'')) \<noteq> []"
    by (simp add: ex_defs)
  have h3: "X_GetPartByMXID (DB env0) (trace state0) (GetReplaceID (RelatesTo (edit_content ''$m1'')))
              = Inr (Some (row_of 1 ''r1'' ''$m1''))"
    by (simp add: ex_defs)
  have out: "out = Returns ()"
    using run by (simp add: handleMatrixMessage_def handleMatrixEdit_def GetPartByMXID_def
        HandleMatrixEdit_def MessageUpdate_def ext_defs ex_defs Let_def)
  have a: "insertedRows (newCalls state0 s') = [] \<and>
      filter isDBWrite (newCalls state0 s') = [C_MessageUpdate (row_of 1 ''r1'' ''$m1'')]"
    using handleMatrixMessage_edit_updates_target [OF h1 h2 h3 run] by (simp add: ex_defs)
  obtain out2 s2 where run2: "handleMatrixMessage env0 login0 None (edit_of ''$missing'') state0 = (out2, s2)"
    by (cases "handleMatrixMessage env0 login0 None (edit_of ''$missing'') state0")
  have g1: "Parsed (evt_Content (edit_of ''$missing'')) = MessageContent (edit_content ''$missing'')"
    by (simp add: ex_defs)
  have g2: "GetReplaceID (RelatesTo (edit_content ''$missing'')) \<noteq> []"
    by (simp add: ex_defs)
  have g3: "X_GetPartByMXID (DB env0) (trace state0) (GetReplaceID (RelatesTo (edit_content ''$missing'')))
              = Inr None"
    by (simp add: ex_defs)
  have b: "out2 = Returns () \<and> newCalls state0 s2 = [C_GetPartByMXID ''$missing'',
         C_Log WarnLevel ''Edit target message not found in database'']"
    using handleMatrixMessage_edit_updates_target [OF g1 g2 g3 run2] by (simp add: ex_defs)
  have "s2 = state0\<lparr>trace := [C_GetPartByMXID ''$missing'',
         C_Log WarnLevel ''Edit target message not found in database'']\<rparr>"
    using run2 by (simp add: handleMatrixMessage_def handleMatrixEdit_def GetPartByMXID_def
        ext_defs ex_defs Let_def)
  with a b run run2 out show ?thesis by simp
qed

subsection \<open>Remote messages\<close>


text \<open>Claim C7. When \<open>GetFirstPartByID(evt.GetID())\<close> returns a row, \<open>handleRemoteMessage\<close> makes
  that lookup, logs, and returns: nothing is sent to Matrix and no row is inserted.\<close>

theorem handleRemoteMessage_duplicate_dropped: 
  assumes "X_GetFirstPartByID (DB env) (trace s) (GetID evt) = Inr (Some existing)"
  shows "\<exists>s'. handleRemoteMessage env source evt s = (Returns (), s') \<and>
           s' = s\<lparr>trace := trace s @ [C_GetFirstPartByID (GetID evt),
                                       C_Log DebugLevel ''Ignoring duplicate message'']\<rparr> \<and>
           filter isMatrixSend (newCalls s s') = [] \<and>
           filter isDBWrite (newCalls s s') = []"
  using assms
  by (simp add: handleRemoteMessage_def GetFirstPartByID_def ext_defs newCalls_def isMatrixSend_def
      isDBWrite_def)

text \<open>Witness for C7: the remote message \<open>r1\<close>, already bridged as \<open>$m1\<close>.\<close>

theorem handleRemoteMessage_duplicate_dropped_witness:
  "X_GetFirstPartByID (DB env0) (trace state0) (GetID remote_r1) = Inr (Some (row_of 1 ''r1'' ''$m1'')) \<and>
   handleRemoteMessage env0 login0 remote_r1 state0 =
     (Returns (), state0\<lparr>trace := [C_GetFirstPartByID ''r1'', C_Log DebugLevel ''Ignoring duplicate message'']\<rparr>)"
proof -
  have h: "X_GetFirstPartByID (DB env0) (trace state0) (GetID remote_r1) = Inr (Some (row_of 1 ''r1'' ''$m1''))"
    by (simp add: ex_defs)
  from handleRemoteMessage_duplicate_dropped [OF h, of login0] h show ?thesis
    by (simp add: ex_defs)
qed

text \<open>Claim C8. A remote message that is not a duplicate, whose sender has an intent, and whose
  converted form names both a reply target and a thread root that the store resolves to
  rows: every row \<open>handleRemoteMessage\<close> inserts carries the thread root's \<open>RowID\<close> in
  \<open>RelatesToRowID\<close>. Each hypothesis names the answer of one call of the run, in order.\<close>

theorem handleRemoteMessage_thread_precedence:
  assumes dup: "GetFirstPartByID env (GetID evt) s = (existing, s0)"
    and nodup: "case existing of Inr (Some dupRow) \<Rightarrow> False | _ \<Rightarrow> True"
    and intent: "getIntentFor env (GetSender evt) source
                   (case existing of
                      Inl err \<Rightarrow> Log ErrorLevel ''Failed to check if message is a duplicate'' s0
                    | _ \<Rightarrow> s0) = (Some intent, s2)"
    and conv: "ConvertMessage env evt (portal s2) intent s2 = (Inr converted, s3)"
    and reply: "ReplyTo converted = Some replyID"
               "GetFirstOrSpecificPartByID env replyID s3 = (Inr (Some replyRow), s4)"
    and thread: "ThreadRoot converted = Some threadID"
                "GetFirstOrSpecificPartByID env threadID s4 = (Inr (Some threadRow), s5)"
  shows "\<exists>s'. handleRemoteMessage env source evt s = (Returns (), s') \<and>
           list_all (\<lambda>m. RelatesToRowID m = RowID threadRow) (insertedRows (newCalls s s'))"
proof -
  let ?s' = "handleRemoteMessage_parts env intent evt (Timestamp converted) (RowID threadRow)
               (Some replyRow) (Some threadRow) (Some threadRow) (Parts converted) s5"
  let ?s1 = "case existing of
               Inl err \<Rightarrow> Log ErrorLevel ''Failed to check if message is a duplicate'' s0
             | _ \<Rightarrow> s0"
  have run: "handleRemoteMessage env source evt s = (Returns (), ?s')"
    using assms by (simp add: handleRemoteMessage_def lookupRelation_def Let_def split: sum.splits option.splits)
  have t0: "trace s0 = trace s @ [C_GetFirstPartByID (GetID evt)]"
    using dup by (auto simp: GetFirstPartByID_def ext_defs)
  obtain n1 where t1: "trace ?s1 = trace s0 @ n1" "insertedRows n1 = []"
    by (cases existing) (auto simp: ext_defs)
  obtain n2 where t2: "trace s2 = trace ?s1 @ n2" "insertedRows n2 = []"
    using getIntentFor_trace [OF intent] by auto
  have t3: "trace s3 = trace s2 @ [C_ConvertMessage evt (portal s2) intent]"
    using conv by (auto simp: ConvertMessage_def ext_defs)
  have t4: "trace s4 = trace s3 @ [C_GetFirstOrSpecificPartByID replyID]"
    using reply(2) by (auto simp: GetFirstOrSpecificPartByID_def ext_defs)
  have t5: "trace s5 = trace s4 @ [C_GetFirstOrSpecificPartByID threadID]"
    using thread(2) by (auto simp: GetFirstOrSpecificPartByID_def ext_defs)
  obtain new where t': "trace ?s' = trace s5 @ new"
      "list_all (\<lambda>m. RelatesToRowID m = RowID threadRow) (insertedRows new)"
    using parts_trace [of env intent evt "Timestamp converted" "RowID threadRow" "Some replyRow"
        "Some threadRow" "Some threadRow" "Parts converted" s5]
    by auto
  have "newCalls s ?s' = [C_GetFirstPartByID (GetID evt)] @ n1 @ n2 @
       [C_ConvertMessage evt (portal s2) intent, C_GetFirstOrSpecificPartByID replyID,
        C_GetFirstOrSpecificPartByID threadID] @ new"
    using t0 t1 t2 t3 t4 t5 t' by (simp add: newCalls_def)
  with run t1 t2 t' show ?thesis
    by (simp add: insertedRows_append)
qed

text \<open>Witness for C8: a reply to \<open>r1\<close> (row 1) in the thread of \<open>r0\<close> (row 5); the one row
  inserted relates to row 5.\<close>

theorem handleRemoteMessage_thread_precedence_witness:
  "RowID (row_of 1 ''r1'' ''$m1'') = 1 \<and> RowID (row_of 5 ''r0'' ''$m0'') = 5 \<and>
   (\<exists>s'. handleRemoteMessage (env_convert conv_thread) login0 remote_r2 state0 = (Returns (), s') \<and>
      list_all (\<lambda>m. RelatesToRowID m = 5) (insertedRows (newCalls state0 s')) \<and>
      map RelatesToRowID (insertedRows (newCalls state0 s')) = [5])"
proof -
  let ?env = "env_convert conv_thread"
  let ?intent = "MatrixAPI ''@ghost_alice:example.org''"
  let ?ghost = "\<lparr>ghost_ID = ''alice'', Intent = ?intent\<rparr>"
  let ?sa = "emit (C_GetFirstPartByID ''r2'') state0"
  let ?sb = "emit (C_UpdateInfoIfNecessary ?ghost login0) (emit (C_GetGhostByID ''alice'') ?sa)"
  let ?sc = "emit (C_ConvertMessage remote_r2 portal0 ?intent) ?sb"
  let ?sd = "emit (C_GetFirstOrSpecificPartByID \<lparr>mop_MessageID = ''r1'', mop_PartID = None\<rparr>) ?sc"
  let ?se = "emit (C_GetFirstOrSpecificPartByID \<lparr>mop_MessageID = ''r0'', mop_PartID = None\<rparr>) ?sd"
  have h1: "GetFirstPartByID ?env (GetID remote_r2) state0 = (Inr None, ?sa)"
    by (simp add: GetFirstPartByID_def ext_defs ex_defs)
  have h2: "case (Inr None :: error + Message option) of Inr (Some dupRow) \<Rightarrow> False | _ \<Rightarrow> True"
    by simp
  have h3: "getIntentFor ?env (GetSender remote_r2) login0
              (case (Inr None :: error + Message option) of
                 Inl err \<Rightarrow> Log ErrorLevel ''Failed to check if message is a duplicate'' ?sa
               | _ \<Rightarrow> ?sa) = (Some ?intent, ?sb)"
    by (simp add: getIntentFor_def GetGhostByID_def UpdateInfoIfNecessary_def ext_defs ex_defs Let_def)
  have h4: "ConvertMessage ?env remote_r2 (portal ?sb) ?intent ?sb = (Inr conv_thread, ?sc)"
    by (simp add: ConvertMessage_def ext_defs ex_defs)
  have h5: "ReplyTo conv_thread = Some \<lparr>mop_MessageID = ''r1'', mop_PartID = None\<rparr>"
    by (simp add: ex_defs)
  have h6: "GetFirstOrSpecificPartByID ?env \<lparr>mop_MessageID = ''r1'', mop_PartID = None\<rparr> ?sc
              = (Inr (Some (row_of 1 ''r1'' ''$m1'')), ?sd)"
    by (simp add: GetFirstOrSpecificPartByID_def ext_defs ex_defs)
  have h7: "ThreadRoot conv_thread = Some \<lparr>mop_MessageID = ''r0'', mop_PartID = None\<rparr>"
    by (simp add: ex_defs)
  have h8: "GetFirstOrSpecificPartByID ?env \<lparr>mop_MessageID = ''r0'', mop_PartID = None\<rparr> ?sd
              = (Inr (Some (row_of 5 ''r0'' ''$m0'')), ?se)"
    by (simp add: GetFirstOrSpecificPartByID_def ext_defs ex_defs)
  from handleRemoteMessage_thread_precedence [OF h1 h2 h3 h4 h5 h6 h7 h8] obtain s' where
    run: "handleRemoteMessage ?env login0 remote_r2 state0 = (Returns (), s')"
    and rows: "list_all (\<lambda>m. RelatesToRowID m = RowID (row_of 5 ''r0'' ''$m0''))
                 (insertedRows (newCalls state0 s'))"
    by blast
  have "map RelatesToRowID (insertedRows (newCalls state0
          (snd (handleRemoteMessage ?env login0 remote_r2 state0)))) = [5]"
    by (simp add: handleRemoteMessage_def lookupRelation_def getIntentFor_def GetFirstPartByID_def
        GetGhostByID_def UpdateInfoIfNecessary_def ConvertMessage_def GetFirstOrSpecificPartByID_def
        SendMessage_def MessageInsert_def ext_defs ex_defs Let_def newCalls_def)
  with run rows show ?thesis by (simp add: row_of_def)
qed

text \<open>Claim C10. When the duplicate check \<open>GetFirstPartByID\<close> returns an error, the error is
  logged and \<open>handleRemoteMessage\<close> goes on: with an intent for the sender, a conversion
  that succeeds, and relation lookups that do not panic, the message is converted and one
  \<open>SendMessage\<close> is made for each part.\<close>

theorem handleRemoteMessage_dedupe_error_proceeds:
  assumes dup: "GetFirstPartByID env (GetID evt) s = (Inl err, s0)"
    and intent: "getIntentFor env (GetSender evt) source
                   (Log ErrorLevel ''Failed to check if message is a duplicate'' s0) = (Some intent, s2)"
    and conv: "ConvertMessage env evt (portal s2) intent s2 = (Inr converted, s3)"
    and reply: "lookupRelation env (ReplyTo converted)
                   ''Failed to get reply target message from database'' 0 s3
                 = (Returns (rowID1, replyTo), s4)"
    and thread: "lookupRelation env (ThreadRoot converted)
                   ''Failed to get thread root message from database'' rowID1 s4
                 = (Returns (rowID, threadRoot), s5)"
  shows "\<exists>s'. handleRemoteMessage env source evt s = (Returns (), s') \<and>
           take 2 (newCalls s s') = [C_GetFirstPartByID (GetID evt),
                                     C_Log ErrorLevel ''Failed to check if message is a duplicate''] \<and>
           C_ConvertMessage evt (portal s2) intent \<in> set (newCalls s s') \<and>
           length (filter isSendMessage (newCalls s s')) = length (Parts converted)"
proof -
  let ?s' = "handleRemoteMessage_parts env intent evt (Timestamp converted) rowID replyTo threadRoot
               threadRoot (Parts converted) s5"
  have run: "handleRemoteMessage env source evt s = (Returns (), ?s')"
    using assms by (simp add: handleRemoteMessage_def Let_def)
  have t0: "trace s0 = trace s @ [C_GetFirstPartByID (GetID evt)]"
    using dup by (auto simp: GetFirstPartByID_def ext_defs)
  obtain n2 where t2: "trace s2 = trace s0 @ [C_Log ErrorLevel ''Failed to check if message is a duplicate''] @ n2"
      "filter isSendMessage n2 = []"
    using getIntentFor_trace [OF intent] by (auto simp: ext_defs)
  have t3: "trace s3 = trace s2 @ [C_ConvertMessage evt (portal s2) intent]"
    using conv by (auto simp: ConvertMessage_def ext_defs)
  obtain n4 where t4: "trace s4 = trace s3 @ n4" "filter isSendMessage n4 = []"
    using lookupRelation_trace [OF reply] by auto
  obtain n5 where t5: "trace s5 = trace s4 @ n5" "filter isSendMessage n5 = []"
    using lookupRelation_trace [OF thread] by auto
  obtain new where t': "trace ?s' = trace s5 @ new" "length (filter isSendMessage new) = length (Parts converted)"
    using parts_trace [of env intent evt "Timestamp converted" rowID replyTo threadRoot threadRoot "Parts converted" s5]
    by auto
  have "newCalls s ?s' = [C_GetFirstPartByID (GetID evt),
       C_Log ErrorLevel ''Failed to check if message is a duplicate''] @ n2 @
       [C_ConvertMessage evt (portal s2) intent] @ n4 @ n5 @ new"
    using t0 t2 t3 t4 t5 t' by (simp add: newCalls_def)
  with run t2 t4 t5 t' show ?thesis
    by (simp add: isSendMessage_def)
qed

text \<open>Witness for C10: the store holds \<open>r1\<close> already, the duplicate check fails, and \<open>r1\<close> is sent
  to Matrix again.\<close>

theorem handleRemoteMessage_dedupe_error_proceeds_witness:
  "X_GetFirstPartByID (DB env_dberr) [] ''r1'' = Inl (Err ''database is locked'') \<and>
   (\<exists>s'. handleRemoteMessage env_dberr login0 remote_r1 state0 = (Returns (), s') \<and>
      take 2 (newCalls state0 s') = [C_GetFirstPartByID ''r1'',
          C_Log ErrorLevel ''Failed to check if message is a duplicate''] \<and>
      length (filter isSendMessage (newCalls state0 s')) = 1)"
proof -
  let ?env = "env_dberr"
  let ?intent = "MatrixAPI ''@ghost_alice:example.org''"
  let ?ghost = "\<lparr>ghost_ID = ''alice'', Intent = ?intent\<rparr>"
  let ?sa = "emit (C_GetFirstPartByID ''r1'') state0"
  let ?sb = "emit (C_UpdateInfoIfNecessary ?ghost login0) (emit (C_GetGhostByID ''alice'')
               (Log ErrorLevel ''Failed to check if message is a duplicate'' ?sa))"
  let ?sc = "emit (C_ConvertMessage remote_r1 portal0 ?intent) ?sb"
  have h1: "GetFirstPartByID ?env (GetID remote_r1) state0 = (Inl (Err ''database is locked''), ?sa)"
    by (simp add: GetFirstPartByID_def ext_defs ex_defs)
  have h2: "getIntentFor ?env (GetSender remote_r1) login0
              (Log ErrorLevel ''Failed to check if message is a duplicate'' ?sa) = (Some ?intent, ?sb)"
    by (simp add: getIntentFor_def GetGhostByID_def UpdateInfoIfNecessary_def ext_defs ex_defs Let_def)
  have h3: "ConvertMessage ?env remote_r1 (portal ?sb) ?intent ?sb = (Inr conv_plain, ?sc)"
    by (simp add: ConvertMessage_def ext_defs ex_defs)
  have h4: "lookupRelation ?env (ReplyTo conv_plain)
              ''Failed to get reply target message from database'' 0 ?sc = (Returns (0, None), ?sc)"
    by (simp add: lookupRelation_def ex_defs)
  have h5: "lookupRelation ?env (ThreadRoot conv_plain)
              ''Failed to get thread root message from database'' 0 ?sc = (Returns (0, None), ?sc)"
    by (simp add: lookupRelation_def ex_defs)
  have p: "length (Parts conv_plain) = 1"
    by (simp add: ex_defs)
  have d: "X_GetFirstPartByID (DB env_dberr) [] ''r1'' = Inl (Err ''database is locked'')"
    by (simp add: ex_defs)
  from handleRemoteMessage_dedupe_error_proceeds [OF h1 h2 h3 h4 h5] p d show ?thesis
    by (auto simp: ex_defs)
qed

subsection \<open>What the info updater and the membership syncer leave alone\<close>

lemma extends_refl: "extends s s"
  by (simp add: extends_def)

lemma extends_trans: "extends s s1 \<Longrightarrow> extends s1 s2 \<Longrightarrow> extends s s2"
  by (auto simp: extends_def)

lemma extends_emit: "extends s (emit c s)"
  by (simp add: extends_def emit_def)

lemma extends_Log: "extends s (Log l m s)"
  by (simp add: extends_def emit_def Log_def)

lemma extends_logIfErr: "extends s (logIfErr e m s)"
  by (simp add: extends_def ext_defs split: option.splits)

lemma portal_emit [simp]: "portal (emit c s) = portal s"
  by (simp add: emit_def)

lemma portal_Log [simp]: "portal (Log l m s) = portal s"
  by (simp add: Log_def)

lemma portal_logIfErr [simp]: "portal (logIfErr e m s) = portal s"
  by (simp add: logIfErr_def split: option.splits)

lemma ext_keeps: "ext f c s = (r, s') \<Longrightarrow> portal s' = portal s \<and> extends s s'"
  by (auto simp: ext_def extends_emit)

lemma sendRoomMeta_keeps:
  assumes "sendRoomMeta env sender ts ty k c s = (ok, s')"
  shows "portal s' = portal s \<and> extends s s'"
  using assms
  by (auto simp: sendRoomMeta_def SendState_def ext_defs extends_def Let_def
      split: if_splits option.splits prod.splits)

lemma UpdateName_keeps:
  assumes "UpdateName env name sender ts s = (c, s')"
  shows "MXID (portal s') = MXID (portal s) \<and> Parent (portal s') = Parent (portal s) \<and> extends s s'"
  using assms
  by (auto simp: UpdateName_def Let_def extends_def split: if_splits prod.splits dest!: sendRoomMeta_keeps)

lemma UpdateTopic_keeps:
  assumes "UpdateTopic env name sender ts s = (c, s')"
  shows "MXID (portal s') = MXID (portal s) \<and> Parent (portal s') = Parent (portal s) \<and> extends s s'"
  using assms
  by (auto simp: UpdateTopic_def Let_def extends_def split: if_splits prod.splits dest!: sendRoomMeta_keeps)

lemma sendAvatarMeta_keeps:
  assumes "sendAvatarMeta env sender ts s = (c, s')"
  shows "MXID (portal s') = MXID (portal s) \<and> Parent (portal s') = Parent (portal s) \<and> extends s s'"
  using assms
  by (auto simp: sendAvatarMeta_def Let_def extends_def split: if_splits prod.splits dest!: sendRoomMeta_keeps)

lemma UpdateAvatar_keeps:
  assumes "UpdateAvatar env avatar sender ts s = (c, s')"
  shows "MXID (portal s') = MXID (portal s) \<and> Parent (portal s') = Parent (portal s) \<and> extends s s'"
  using assms
  by (auto simp: UpdateAvatar_def Reupload_def ext_defs Let_def extends_def
      split: if_splits prod.splits sum.splits dest!: sendAvatarMeta_keeps)

lemma UpdateBridgeInfo_keeps:
  assumes "UpdateBridgeInfo env s = (out, s')"
  shows "portal s' = portal s \<and> extends s s'"
  using assms
  by (auto simp: UpdateBridgeInfo_def Let_def extends_def
      split: if_splits prod.splits option.splits dest!: sendRoomMeta_keeps)

lemma UpdateInfo_keeps:
  assumes "UpdateInfo env info sender ts s = (out, s')"
  shows "MXID (portal s') = MXID (portal s) \<and> Parent (portal s') = Parent (portal s) \<and> extends s s'"
proof -
  obtain c1 s1 where 1: "(case info_Name info of None \<Rightarrow> (False, s)
                          | Some name \<Rightarrow> UpdateName env name sender ts s) = (c1, s1)"
    by fastforce
  obtain c2 s2 where 2: "(case info_Topic info of None \<Rightarrow> (c1, s1)
                          | Some topic \<Rightarrow> (let (c, s') = UpdateTopic env topic sender ts s1 in (c \<or> c1, s'))) = (c2, s2)"
    by fastforce
  obtain c3 s3 where 3: "(case info_Avatar info of None \<Rightarrow> (c2, s2)
                          | Some avatar \<Rightarrow> (let (c, s') = UpdateAvatar env avatar sender ts s2 in (c \<or> c2, s'))) = (c3, s3)"
    by fastforce
  have k1: "MXID (portal s1) = MXID (portal s) \<and> Parent (portal s1) = Parent (portal s) \<and> extends s s1"
    using 1 by (auto split: option.splits dest: UpdateName_keeps simp: extends_refl)
  have k2: "MXID (portal s2) = MXID (portal s1) \<and> Parent (portal s2) = Parent (portal s1) \<and> extends s1 s2"
    using 2 by (auto split: option.splits prod.splits dest: UpdateTopic_keeps simp: extends_refl)
  have k3: "MXID (portal s3) = MXID (portal s2) \<and> Parent (portal s3) = Parent (portal s2) \<and> extends s2 s3"
    using 3 by (auto split: option.splits prod.splits dest: UpdateAvatar_keeps simp: extends_refl)
  have k4: "MXID (portal s') = MXID (portal s3) \<and> Parent (portal s') = Parent (portal s3) \<and> extends s3 s'"
    using assms 1 2 3
    by (auto simp: UpdateInfo_def Let_def PortalUpdate_def extends_refl
        split: if_splits prod.splits outcome.splits
        dest!: UpdateBridgeInfo_keeps ext_keeps intro: extends_trans extends_logIfErr)
  from k1 k2 k3 k4 show ?thesis
    by (auto intro: extends_trans)
qed


lemma findLoginOf_keeps:
  "findLoginOf env member ls s = (r, s') \<Longrightarrow> portal s' = portal s \<and> extends s s'"
proof (induction ls arbitrary: s)
  case Nil
  then show ?case by (simp add: extends_refl)
next
  case (Cons login ls)
  then show ?case
    by (auto simp: IsThisUser_def Let_def extends_refl
        split: option.splits prod.splits if_splits
        dest!: ext_keeps intro: extends_trans)
qed

lemma planMembers_keeps:
  "planMembers env source ls members ids extra intents s = (r, s')
     \<Longrightarrow> portal s' = portal s \<and> extends s s'"
proof (induction members arbitrary: s ids extra intents)
  case Nil
  then show ?case by (simp add: extends_refl)
next
  case (Cons member members)
  obtain found s1 where f: "findLoginOf env member ls s = (found, s1)"
    by fastforce
  note k1 = findLoginOf_keeps [OF f]
  show ?case
  proof (cases found)
    case (Returns login)
    obtain g s2 where g: "GetGhostByID env member s1 = (g, s2)"
      by fastforce
    have k2: "portal s2 = portal s1 \<and> extends s1 s2"
      using g by (auto simp: GetGhostByID_def dest!: ext_keeps)
    show ?thesis
    proof (cases g)
      case (Inl err)
      with Cons.prems f Returns g k1 k2 show ?thesis
        by (auto simp: Let_def intro: extends_trans)
    next
      case (Inr ghost)
      let ?s3 = "UpdateInfoIfNecessary ghost source s2"
      have k3: "portal ?s3 = portal s2 \<and> extends s2 ?s3"
        by (simp add: UpdateInfoIfNecessary_def extends_emit)
      from Cons.prems f Returns g Inr
      obtain ids' extra' intents' where
        "planMembers env source ls members ids' extra' intents' ?s3 = (r, s')"
        by (auto simp: Let_def)
      from Cons.IH [OF this] k1 k2 k3 show ?thesis
        by (auto intro: extends_trans)
    qed
  next
    case (Panics p)
    with Cons.prems f k1 show ?thesis by (auto simp: Let_def)
  next
    case Diverges
    with Cons.prems f k1 show ?thesis by (auto simp: Let_def)
  qed
qed

lemma ensureIntentsJoined_keeps:
  "ensureIntentsJoined env intents cur s = (cur', s') \<Longrightarrow> portal s' = portal s \<and> extends s s'"
proof (induction intents arbitrary: s cur)
  case Nil
  then show ?case by (simp add: extends_refl)
next
  case (Cons intent intents)
  let ?s1 = "if (case map_of cur (GetMXID intent) of None \<Rightarrow> False | Some m \<Rightarrow> Membership m = MembershipJoin)
             then s
             else (let (err, s') = EnsureJoined env intent (MXID (portal s)) s
                   in logIfErr err ''Failed to ensure user is joined to room'' s')"
  have k: "portal ?s1 = portal s \<and> extends s ?s1"
    by (auto simp: EnsureJoined_def Let_def extends_refl split: prod.splits
        dest!: ext_keeps intro: extends_trans extends_logIfErr)
  from Cons.prems have "ensureIntentsJoined env intents (deleteKey (GetMXID intent) cur) ?s1 = (cur', s')"
    by (simp add: Let_def)
  from Cons.IH [OF this] k show ?case
    by (auto intro: extends_trans)
qed

lemma inviteExtraUsers_keeps:
  "inviteExtraUsers env users cur s = (cur', s') \<Longrightarrow> portal s' = portal s \<and> extends s s'"
proof (induction users arbitrary: s cur)
  case Nil
  then show ?case by (simp add: extends_refl)
next
  case (Cons mxid users)
  let ?s1 = "if (case map_of cur mxid of None \<Rightarrow> False
                 | Some m \<Rightarrow> Membership m = MembershipJoin \<or> Membership m = MembershipInvite)
             then s
             else (let (err, s') = InviteUser env (Bot env) (MXID (portal s)) mxid s
                   in logIfErr err ''Failed to invite user to room'' s')"
  have k: "portal ?s1 = portal s \<and> extends s ?s1"
    by (auto simp: InviteUser_def Let_def extends_refl split: prod.splits
        dest!: ext_keeps intro: extends_trans extends_logIfErr)
  from Cons.prems have "inviteExtraUsers env users (deleteKey mxid cur) ?s1 = (cur', s')"
    by (simp add: Let_def)
  from Cons.IH [OF this] k show ?case
    by (auto intro: extends_trans)
qed

lemma removeExtraMembers_keeps:
  "portal (removeExtraMembers env cur s) = portal s \<and> extends s (removeExtraMembers env cur s)"
proof (induction cur arbitrary: s)
  case Nil
  then show ?case by (simp add: extends_refl)
next
  case (Cons m cur)
  obtain u e where m: "m = (u, e)" by (cases m)
  show ?case
  proof (cases "Membership e = MembershipLeave \<or> Membership e = MembershipBan")
    case True
    with m Cons.IH [of s] show ?thesis by simp
  next
    case False
    let ?c = "\<lparr>Parsed = MemberContent
                 \<lparr>Membership = MembershipLeave, mem_AvatarURL = mem_AvatarURL e,
                  mem_Displayname = mem_Displayname e, mem_Reason = ''User is not in remote chat''\<rparr>,
               Raw = None\<rparr>"
    obtain err s1 where 1: "SendState env (Bot env) (MXID (portal s)) StateMember u ?c (X_Now env (trace s)) s = (err, s1)"
      by fastforce
    have k1: "portal s1 = portal s \<and> extends s s1"
      using 1 by (auto simp: SendState_def dest!: ext_keeps)
    let ?s2 = "logIfErr err ''Failed to remove user from room'' s1"
    have k2: "portal ?s2 = portal s \<and> extends s ?s2"
      using k1 by (auto intro: extends_trans extends_logIfErr)
    have "removeExtraMembers env (m # cur) s = removeExtraMembers env cur ?s2"
      using m False 1 by (simp add: Let_def)
    with Cons.IH [of ?s2] k2 show ?thesis
      by (auto intro: extends_trans)
  qed
qed

lemma SyncParticipants_keeps:
  assumes "SyncParticipants env members source s = (r, s')"
  shows "portal s' = portal s \<and> extends s s'"
proof -
  obtain q s1 where 1: "GetUserLoginsInPortal env (ID (portal s)) s = (q, s1)"
    by fastforce
  have k1: "portal s1 = portal s \<and> extends s s1"
    using 1 by (auto simp: GetUserLoginsInPortal_def dest!: ext_keeps)
  show ?thesis
  proof (cases q)
    case (Inl err)
    with assms 1 k1 show ?thesis by (auto simp: SyncParticipants_def)
  next
    case (Inr ls)
    obtain plan s2 where 2: "planMembers env source ls members [] [] [] s1 = (plan, s2)"
      by fastforce
    note k2 = planMembers_keeps [OF 2]
    show ?thesis
    proof (cases "\<exists>ids extra intents. plan = Returns (Inr (ids, extra, intents)) \<and> MXID (portal s2) \<noteq> []")
      case False
      with assms 1 Inr 2 k1 k2 show ?thesis
        by (auto simp: SyncParticipants_def split: outcome.splits sum.splits if_splits intro: extends_trans)
    next
      case True
      then obtain ids extra intents where p: "plan = Returns (Inr (ids, extra, intents))"
        and mx: "MXID (portal s2) \<noteq> []" by blast
      obtain got s3 where 3: "GetMembers env (MXID (portal s2)) s2 = (got, s3)"
        by fastforce
      have k3: "portal s3 = portal s2 \<and> extends s2 s3"
        using 3 by (auto simp: GetMembers_def dest!: ext_keeps)
      obtain c1 s4 where 4: "ensureIntentsJoined env intents (case got of Inl err \<Rightarrow> [] | Inr ms \<Rightarrow> ms) s3 = (c1, s4)"
        by fastforce
      note k4 = ensureIntentsJoined_keeps [OF 4]
      obtain c2 s5 where 5: "inviteExtraUsers env extra c1 s4 = (c2, s5)"
        by fastforce
      note k5 = inviteExtraUsers_keeps [OF 5]
      let ?s6 = "if Relay (portal s5) = None then removeExtraMembers env c2 s5 else s5"
      have k6: "portal ?s6 = portal s5 \<and> extends s5 ?s6"
        using removeExtraMembers_keeps [of env c2 s5] by (simp add: extends_refl)
      have "s' = ?s6"
        using assms 1 Inr 2 p mx 3 4 5 by (simp add: SyncParticipants_def Let_def)
      with k1 k2 k3 k4 k5 k6 show ?thesis
        by (auto simp: extends_def)
    qed
  qed
qed


subsection \<open>Room creation\<close>

lemma roomCreated_error:
  assumes "roomCreated env info source roomID s = (Returns (Some err), s')"
  shows "trace s' = trace s @ [C_Log InfoLevel ''Matrix room created'', C_PortalUpdate (portal s'),
            C_Log ErrorLevel ''Failed to save portal to database after creating Matrix room'']
         \<and> MXID (portal s') = roomID"
  using assms
  by (auto simp: roomCreated_def PortalUpdate_def ext_defs isBeeper_def Let_def
      split: option.splits prod.splits)

text \<open>Claim C4, amended. \<open>CreateMatrixRoom\<close> on a portal without room returns an error. Unless
  the error is the one of saving the portal after the room was created, \<open>MXID\<close> is still
  empty (the error came from \<open>GetChatInfo\<close>, from \<open>SyncParticipants\<close> or from \<open>CreateRoom\<close>). When
  it is that one, \<open>CreateRoom\<close> had returned a room id, the portal with that id as \<open>MXID\<close> is
  the one handed to \<open>Portal.Update\<close>, and these are the last calls of the run.\<close>

theorem CreateMatrixRoom_error_keeps_room_uncreated:
  assumes empty: "MXID (portal s) = []"
    and run: "CreateMatrixRoom env source s = (Returns (Some err), s')"
  shows "if last (trace s') =
              C_Log ErrorLevel ''Failed to save portal to database after creating Matrix room''
         then \<exists>pre req.
                newCalls s s' = pre @ [C_CreateRoom (Bot env) req,
                    C_Log InfoLevel ''Matrix room created'', C_PortalUpdate (portal s'),
                    C_Log ErrorLevel ''Failed to save portal to database after creating Matrix room'']
                \<and> X_CreateRoom (Matrix env) (trace s @ pre) (Bot env) req = Inr (MXID (portal s'))
         else MXID (portal s') = []"
proof -
  let ?s1 = "Log InfoLevel ''Creating Matrix room'' s"
  from empty run obtain client where c: "Client source = Some client"
    by (auto simp: CreateMatrixRoom_def Let_def split: option.splits)
  obtain r s2 where 2: "GetChatInfo env client (portal ?s1) ?s1 = (r, s2)"
    by fastforce
  have k2: "portal s2 = portal s \<and> extends s s2"
    using 2 by (auto simp: GetChatInfo_def extends_def ext_defs)
  show ?thesis
  proof (cases r)
    case (Inl e)
    with empty run c 2 have "s' = Log ErrorLevel ''Failed to update portal info for creation'' s2"
      by (simp add: CreateMatrixRoom_def Let_def)
    with k2 empty show ?thesis by (simp add: ext_defs)
  next
    case (Inr info)
    obtain updated s3 where 3: "UpdateInfo env info None 0 s2 = (updated, s3)"
      by fastforce
    note k3 = UpdateInfo_keeps [OF 3]
    from empty run c 2 Inr 3 obtain u where u: "updated = Returns u"
      by (auto simp: CreateMatrixRoom_def Let_def split: outcome.splits)
    obtain synced s4 where 4: "SyncParticipants env (Members info) source s3 = (synced, s4)"
      by fastforce
    note k4 = SyncParticipants_keeps [OF 4]
    from empty run c 2 Inr 3 u 4 obtain x where x: "synced = Returns x"
      by (auto simp: CreateMatrixRoom_def Let_def split: outcome.splits)
    have mx4: "MXID (portal s4) = []" and ext4: "extends s s4"
      using k2 k3 k4 empty by (auto simp: extends_def)
    show ?thesis
    proof (cases x)
      case (Inl e)
      with empty run c 2 Inr 3 u 4 x
      have "s' = Log ErrorLevel ''Failed to process participant list for portal creation'' s4"
        by (simp add: CreateMatrixRoom_def Let_def)
      with mx4 show ?thesis by (simp add: ext_defs)
    next
      case (Inr initialMembers)
      from empty run c 2 \<open>r = Inr info\<close> 3 u 4 x Inr
      obtain isDirect isSpace parentMXID where
        d: "IsDirectChat info = Some isDirect" and sp: "IsSpace info = Some isSpace"
        and pm: "(case Parent (portal s4) of None \<Rightarrow> Some None
                  | Some pid \<Rightarrow> map_option (\<lambda>q. Some (MXID q)) (parentPortal s4 pid)) = Some parentMXID"
        by (simp add: CreateMatrixRoom_def Let_def split: option.splits)
      let ?req = "buildCreateRoom env (portal s4) parentMXID isDirect isSpace initialMembers"
      obtain created s5 where 5: "CreateRoom env (Bot env) ?req s4 = (created, s5)"
        by fastforce
      have k5: "portal s5 = portal s4" "trace s5 = trace s4 @ [C_CreateRoom (Bot env) ?req]"
        "created = X_CreateRoom (Matrix env) (trace s4) (Bot env) ?req"
        using 5 by (auto simp: CreateRoom_def ext_defs)
      show ?thesis
      proof (cases created)
        case (Inl e)
        with empty run c 2 \<open>r = Inr info\<close> 3 u 4 x Inr d sp pm 5
        have "s' = Log ErrorLevel ''Failed to create Matrix room'' s5"
          by (simp add: CreateMatrixRoom_def Let_def)
        with mx4 k5 show ?thesis by (simp add: ext_defs)
      next
        case (Inr roomID)
        with empty run c 2 \<open>r = Inr info\<close> 3 u 4 x \<open>x = Inr initialMembers\<close> d sp pm 5
        have "roomCreated env info source roomID s5 = (Returns (Some err), s')"
          by (simp add: CreateMatrixRoom_def Let_def)
        note rc = roomCreated_error [OF this]
        from ext4 obtain pre where pre: "trace s4 = trace s @ pre"
          by (auto simp: extends_def)
        have "newCalls s s' = pre @ [C_CreateRoom (Bot env) ?req,
                    C_Log InfoLevel ''Matrix room created'', C_PortalUpdate (portal s'),
                    C_Log ErrorLevel ''Failed to save portal to database after creating Matrix room'']"
          using rc k5 pre by (simp add: newCalls_def)
        moreover have "X_CreateRoom (Matrix env) (trace s @ pre) (Bot env) ?req = Inr (MXID (portal s'))"
          using rc k5 pre Inr by simp
        moreover have "last (trace s') =
              C_Log ErrorLevel ''Failed to save portal to database after creating Matrix room''"
          using rc by simp
        ultimately show ?thesis by auto
      qed
    qed
  qed
qed


lemmas create_defs = CreateMatrixRoom_def GetChatInfo_def UpdateInfo_def UpdateName_def UpdateTopic_def
  UpdateAvatar_def UpdateBridgeInfo_def SyncParticipants_def GetUserLoginsInPortal_def
  GetGhostByID_def UpdateInfoIfNecessary_def buildCreateRoom_def CreateRoom_def roomCreated_def
  PortalUpdate_def isBeeper_def parentPortal_def deleteKey_def Let_def

text \<open>Claim C4, as stated, fails. The portal has no room, the homeserver creates
  \<open>!new:example.org\<close>, and saving the portal row afterwards fails: \<open>CreateMatrixRoom\<close> returns
  that error, and the portal's \<open>MXID\<close> is the new room, not the empty string.\<close>

theorem CreateMatrixRoom_save_error_counterexample:
  "MXID (portal state_new) = [] \<and>
   fst (CreateMatrixRoom env_save_fails login0 state_new) = Returns (Some (Err ''disk full'')) \<and>
   MXID (portal (snd (CreateMatrixRoom env_save_fails login0 state_new))) = ''!new:example.org''"
  by (simp add: create_defs ext_defs ex_defs ex2_defs)

text \<open>Witness for C4: a homeserver that refuses to create the room (the portal stays without
  room), and a database that fails to save the portal after creation.\<close>

theorem CreateMatrixRoom_error_keeps_room_uncreated_witness:
  "MXID (portal state_new) = [] \<and>
   (\<exists>s'. CreateMatrixRoom env_create_fails login0 state_new = (Returns (Some (Err ''M_LIMIT_EXCEEDED'')), s')
      \<and> MXID (portal s') = []) \<and>
   (\<exists>s' pre req. CreateMatrixRoom env_save_fails login0 state_new = (Returns (Some (Err ''disk full'')), s')
      \<and> newCalls state_new s' = pre @ [C_CreateRoom bot0 req,
                    C_Log InfoLevel ''Matrix room created'', C_PortalUpdate (portal s'),
                    C_Log ErrorLevel ''Failed to save portal to database after creating Matrix room'']
      \<and> X_CreateRoom (Matrix env_save_fails) (trace state_new @ pre) bot0 req = Inr (MXID (portal s')))"
proof -
  have e: "MXID (portal state_new) = []"
    by (simp add: ex_defs ex2_defs)
  have "fst (CreateMatrixRoom env_create_fails login0 state_new) = Returns (Some (Err ''M_LIMIT_EXCEEDED''))"
    by (simp add: create_defs ext_defs ex_defs ex2_defs)
  then obtain s1 where run1: "CreateMatrixRoom env_create_fails login0 state_new
                               = (Returns (Some (Err ''M_LIMIT_EXCEEDED'')), s1)"
    by (cases "CreateMatrixRoom env_create_fails login0 state_new") auto
  have "last (trace (snd (CreateMatrixRoom env_create_fails login0 state_new)))
          = C_Log ErrorLevel ''Failed to create Matrix room''"
    by (simp add: create_defs ext_defs ex_defs ex2_defs)
  with run1 have l1: "last (trace s1) \<noteq>
      C_Log ErrorLevel ''Failed to save portal to database after creating Matrix room''"
    by simp
  have a: "MXID (portal s1) = []"
    using CreateMatrixRoom_error_keeps_room_uncreated [OF e run1] l1 by simp
  have "fst (CreateMatrixRoom env_save_fails login0 state_new) = Returns (Some (Err ''disk full''))"
    by (simp add: create_defs ext_defs ex_defs ex2_defs)
  then obtain s2 where run2: "CreateMatrixRoom env_save_fails login0 state_new
                               = (Returns (Some (Err ''disk full'')), s2)"
    by (cases "CreateMatrixRoom env_save_fails login0 state_new") auto
  have "last (trace (snd (CreateMatrixRoom env_save_fails login0 state_new)))
          = C_Log ErrorLevel ''Failed to save portal to database after creating Matrix room''"
    by (simp add: create_defs ext_defs ex_defs ex2_defs)
  with run2 have l2: "last (trace s2) =
      C_Log ErrorLevel ''Failed to save portal to database after creating Matrix room''"
    by simp
  have bot: "Bot env_save_fails = bot0"
    by (simp add: ex_defs ex2_defs)
  have b: "\<exists>pre req. newCalls state_new s2 = pre @ [C_CreateRoom bot0 req,
                    C_Log InfoLevel ''Matrix room created'', C_PortalUpdate (portal s2),
                    C_Log ErrorLevel ''Failed to save portal to database after creating Matrix room'']
      \<and> X_CreateRoom (Matrix env_save_fails) (trace state_new @ pre) bot0 req = Inr (MXID (portal s2))"
    using CreateMatrixRoom_error_keeps_room_uncreated [OF e run2] l2 bot by simp
  from e a b run1 run2 show ?thesis by blast
qed

subsection \<open>Portal pump\<close>

lemma eventLoop_Returns_append:
  "eventLoop env before s = (Returns (), s1)
     \<Longrightarrow> eventLoop env (before @ after) s = eventLoop env after s1"
proof (induction before arbitrary: s)
  case Nil
  then show ?case by simp
next
  case (Cons e before)
  then show ?case
    by (auto simp: Let_def split: prod.splits outcome.splits)
qed

text \<open>Claim C3, amended. \<open>eventLoop\<close> has no recovery boundary. After the events before it have
  been handled, the next event is dispatched; when its handler returns, the loop goes on
  with the events queued after it, and when its handler panics (or never returns), the
  loop ends there in the state the handler left: nothing is logged by the loop and no
  later event is handled.\<close>

theorem eventLoop_handler_panic_ends_loop:
  assumes "eventLoop env before s = (Returns (), s1)"
  shows "eventLoop env (before @ rawEvt # after) s =
           (case dispatchEvent env rawEvt s1 of
              (Returns u, s2) \<Rightarrow> eventLoop env after s2
            | (Panics p, s2) \<Rightarrow> (Panics p, s2)
            | (Diverges, s2) \<Rightarrow> (Diverges, s2))"
  using eventLoop_Returns_append [OF assms, of "rawEvt # after"]
  by (simp add: Let_def split: prod.splits outcome.splits)

lemmas pump_defs = dispatchEvent_def handleRemoteEvent_def asserted_def handleRemoteMessage_def
  lookupRelation_def getIntentFor_def GetFirstPartByID_def GetGhostByID_def UpdateInfoIfNecessary_def
  ConvertMessage_def GetFirstOrSpecificPartByID_def SendMessage_def MessageInsert_def Let_def

text \<open>Claim C3, as stated, fails. Two remote messages are queued; the first replies to a message
  that was never bridged, so the lookup of the reply target returns nil and the handler
  panics on \<open>replyTo.RowID\<close>. The loop ends with that panic: it logs nothing, and the second
  message is never handled, though handled alone it is sent to Matrix.\<close>

theorem eventLoop_panic_counterexample:
  "eventLoop env_pump [portalRemoteEvent remote_r3 login0, portalRemoteEvent remote_r2 login0] state0 =
     (Panics nilDereference,
      state0\<lparr>trace := [C_GetFirstPartByID ''r3'', C_GetGhostByID ''alice'',
         C_UpdateInfoIfNecessary \<lparr>ghost_ID = ''alice'', Intent = MatrixAPI ''@ghost_alice:example.org''\<rparr> login0,
         C_ConvertMessage remote_r3 portal0 (MatrixAPI ''@ghost_alice:example.org''),
         C_GetFirstOrSpecificPartByID \<lparr>mop_MessageID = ''r9'', mop_PartID = None\<rparr>]\<rparr>) \<and>
   length (filter isSendMessage (newCalls state0
      (snd (eventLoop env_pump [portalRemoteEvent remote_r2 login0] state0)))) = 1"
  by (simp add: pump_defs ext_defs ex_defs ex2_defs newCalls_def isSendMessage_def)

text \<open>Witness for C3: the queue of the counterexample; the result of the loop is the result of
  the panicking handler.\<close>

theorem eventLoop_handler_panic_ends_loop_witness:
  "eventLoop env_pump [] state0 = (Returns (), state0) \<and>
   fst (dispatchEvent env_pump (portalRemoteEvent remote_r3 login0) state0) = Panics nilDereference \<and>
   eventLoop env_pump ([] @ portalRemoteEvent remote_r3 login0 # [portalRemoteEvent remote_r2 login0]) state0
     = dispatchEvent env_pump (portalRemoteEvent remote_r3 login0) state0"
proof -
  have h: "eventLoop env_pump [] state0 = (Returns (), state0)"
    by simp
  have p: "fst (dispatchEvent env_pump (portalRemoteEvent remote_r3 login0) state0) = Panics nilDereference"
    by (simp add: pump_defs ext_defs ex_defs ex2_defs)
  from eventLoop_handler_panic_ends_loop [OF h, of "portalRemoteEvent remote_r3 login0" "[portalRemoteEvent remote_r2 login0]"] h p
  show ?thesis
    by (cases "dispatchEvent env_pump (portalRemoteEvent remote_r3 login0) state0") simp
qed

end
